theory Spec2Isabelle
  imports Main "HOL-Library.Word"
begin

section \<open>Data model\<close>

text \<open>
  The marketplace module of the wallet-point backend: a handler, a service and a
  repository over a relational store reached through the gorm ORM.

  Identifiers are Go \<open>uint\<close>; the code only compares them, so they are natural numbers.
  A Go \<open>int\<close> on which the Go code itself computes (the page and limit of a listing, the
  quantity of a cart row) is a 64-bit word: \<open>+\<close>, \<open>-\<close> and \<open>*\<close> wrap as Go's do and
  \<open>sint\<close> reads the signed value. Columns that only SQL computes on (stock, price, wallet
  balance) are mathematical integers.
\<close>

type_synonym go_int = "64 word"

text \<open>
  Modelled from the spec: the declaration of \<open>Product\<close> is not among the sources. The
  fields are those of the spec's data model: identity, name, description, price, stock,
  status, created and updated timestamps.
\<close>

record Product =
  product_id :: nat
  product_name :: string
  product_description :: string
  product_price :: int
  product_stock :: int
  product_status :: string
  product_created_at :: nat
  product_updated_at :: nat

text \<open>
  Modelled from the spec: \<open>CartItem\<close> is a (user, product) pair with a quantity; the
  repository reads its fields \<open>ID\<close>, \<open>UserID\<close>, \<open>ProductID\<close> and \<open>Quantity\<close>.
\<close>

record CartItem =
  cart_id :: nat
  cart_user_id :: nat
  cart_product_id :: nat
  cart_quantity :: go_int

text \<open>
  Modelled from the spec: a ledger row links a wallet, a product, a quantity and a point
  amount, with a creation timestamp.
\<close>

record MarketplaceTransaction =
  mt_id :: nat
  mt_wallet_id :: nat
  mt_product_id :: nat
  mt_quantity :: int
  mt_amount :: int
  mt_created_at :: nat

text \<open>
  Modelled from the spec: the wallet and user tables belong to other modules. A wallet
  holds the point balance of one user; the ledger query joins the user's name and email
  (the columns \<open>w.id\<close>, \<open>w.user_id\<close>, \<open>u.id\<close>, \<open>u.full_name\<close> and \<open>u.email\<close> of the query).
\<close>

record Wallet =
  wallet_id :: nat
  wallet_user_id :: nat
  wallet_balance :: int

record User =
  user_id :: nat
  user_full_name :: string
  user_email :: string

text \<open>
  The database behind \<open>*gorm.DB\<close>: one list of rows per table, and the clock that gorm
  reads (\<open>NowFunc\<close>) when it stamps a row.
\<close>

record DB =
  products :: "Product list"
  cart_items :: "CartItem list"
  marketplace_transactions :: "MarketplaceTransaction list"
  wallets :: "Wallet list"
  users :: "User list"
  now :: nat

text \<open>
  The parameters of a product listing, with the fields the handler fills; and a row of
  the ledger listing: a ledger row with the three joined columns the query selects.
\<close>

record ProductListParams =
  Status :: string
  Page :: go_int
  Limit :: go_int

record MarketplaceTransactionWithDetails =
  mtd_transaction :: MarketplaceTransaction
  mtd_product_name :: string
  mtd_user_name :: string
  mtd_user_email :: string

section \<open>Errors\<close>

text \<open>
  A Go \<open>error\<close> is a value: gorm's sentinel \<open>ErrRecordNotFound\<close> (tested with
  \<open>errors.Is\<close>), gorm's \<open>ErrMissingWhereClause\<close>, any other failure of the storage engine,
  or a message made by \<open>errors.New\<close>. \<open>Error\<close> is the method the handler compares against
  a literal.
\<close>

datatype error =
    ErrRecordNotFound
  | ErrMissingWhereClause
  | ErrStorage string
  | ErrNew string

fun Error :: "error \<Rightarrow> string" where
  "Error ErrRecordNotFound = ''record not found''"
| "Error ErrMissingWhereClause = ''WHERE conditions required''"
| "Error (ErrStorage m) = m"
| "Error (ErrNew m) = m"

section \<open>The ORM's query clauses\<close>

text \<open>
  \<open>Where\<close> keeps the rows that satisfy the condition. \<open>First\<close> orders by primary key and
  takes one row, or reports \<open>ErrRecordNotFound\<close>. \<open>Update\<close> rewrites the rows that match
  and reports no error when none does. \<open>Delete\<close> removes the rows that match.
\<close>

definition gorm_First :: "('r \<Rightarrow> nat) \<Rightarrow> ('r \<Rightarrow> bool) \<Rightarrow> 'r list \<Rightarrow> error + 'r" where
  "gorm_First pk cond rows =
     (case find cond (sort_key pk rows) of
        None \<Rightarrow> Inl ErrRecordNotFound
      | Some r \<Rightarrow> Inr r)"

definition gorm_Update :: "('r \<Rightarrow> bool) \<Rightarrow> ('r \<Rightarrow> 'r) \<Rightarrow> 'r list \<Rightarrow> 'r list" where
  "gorm_Update cond set_columns rows = map (\<lambda>r. if cond r then set_columns r else r) rows"

definition gorm_Delete :: "('r \<Rightarrow> bool) \<Rightarrow> 'r list \<Rightarrow> 'r list" where
  "gorm_Delete cond rows = filter (\<lambda>r. \<not> cond r) rows"

text \<open>
  \<open>Limit n\<close> writes a LIMIT clause when \<open>n\<close> is not negative and \<open>Offset n\<close> an OFFSET
  clause when \<open>n\<close> is positive; a negative limit and a non-positive offset cancel the
  clause. \<open>Order("created_at DESC")\<close> sorts by creation time, latest first; SQL leaves the
  order of rows with equal keys open, and the model takes the reverse of the stable sort.
\<close>

definition gorm_Limit :: "go_int \<Rightarrow> 'r list \<Rightarrow> 'r list" where
  "gorm_Limit n rows = (if 0 \<le> sint n then take (nat (sint n)) rows else rows)"

definition gorm_Offset :: "go_int \<Rightarrow> 'r list \<Rightarrow> 'r list" where
  "gorm_Offset n rows = (if 0 < sint n then drop (nat (sint n)) rows else rows)"

definition gorm_Order_desc :: "('r \<Rightarrow> nat) \<Rightarrow> 'r list \<Rightarrow> 'r list" where
  "gorm_Order_desc created rows = rev (sort_key created rows)"

text \<open>An auto-increment key is larger than every key in the table.\<close>

definition auto_increment :: "nat list \<Rightarrow> nat" where
  "auto_increment ids = Suc (foldr max ids 0)"

section \<open>Repository\<close>

text \<open>\<open>GetAll\<close>: filter by status when one is given, count, then order, skip and limit.\<close>

definition GetAll :: "DB \<Rightarrow> ProductListParams \<Rightarrow> error + (Product list \<times> int)" where
  "GetAll db params =
     (let query = (if Status params \<noteq> []
                   then filter (\<lambda>p. product_status p = Status params) (products db)
                   else products db);
          total = int (length query);
          offset = (Page params - 1) * Limit params
      in Inr (gorm_Limit (Limit params) (gorm_Offset offset (gorm_Order_desc product_created_at query)),
              total))"

text \<open>\<open>FindByID\<close>: the record-not-found sentinel becomes the error "product not found".\<close>

definition FindByID :: "DB \<Rightarrow> nat \<Rightarrow> error + Product" where
  "FindByID db productID =
     (case gorm_First product_id (\<lambda>p. product_id p = productID) (products db) of
        Inl err \<Rightarrow>
          (if err = ErrRecordNotFound then Inl (ErrNew ''product not found'') else Inl err)
      | Inr product \<Rightarrow> Inr product)"

text \<open>
  \<open>Delete\<close> is a soft delete: one \<open>Update\<close> of the status column of the rows with that id.
  gorm's \<open>Update\<close> also stamps the \<open>updated_at\<close> column of a model that has one.
\<close>

definition Delete :: "DB \<Rightarrow> nat \<Rightarrow> error option \<times> DB" where
  "Delete db productID =
     (None, db\<lparr>products :=
        gorm_Update (\<lambda>p. product_id p = productID)
          (\<lambda>p. p\<lparr>product_status := ''inactive'', product_updated_at := now db\<rparr>)
          (products db)\<rparr>)"

text \<open>
  \<open>Update\<close> takes the columns to write as an untyped map from column name to value. A
  column the table does not have, or a value of the wrong type, is an error of the
  storage engine and writes nothing; gorm stamps \<open>updated_at\<close> as well.
\<close>

datatype column_value = VString string | VInt int

fun column_ok :: "string \<times> column_value \<Rightarrow> bool" where
  "column_ok (c, VString s) = (c = ''name'' \<or> c = ''description'' \<or> c = ''status'')"
| "column_ok (c, VInt i) = (c = ''price'' \<or> c = ''stock'')"

fun set_column :: "string \<times> column_value \<Rightarrow> Product \<Rightarrow> Product" where
  "set_column (c, VString s) p =
     (if c = ''name'' then p\<lparr>product_name := s\<rparr>
      else if c = ''description'' then p\<lparr>product_description := s\<rparr>
      else if c = ''status'' then p\<lparr>product_status := s\<rparr>
      else p)"
| "set_column (c, VInt i) p =
     (if c = ''price'' then p\<lparr>product_price := i\<rparr>
      else if c = ''stock'' then p\<lparr>product_stock := i\<rparr>
      else p)"

definition Update :: "DB \<Rightarrow> nat \<Rightarrow> (string \<times> column_value) list \<Rightarrow> error option \<times> DB" where
  "Update db productID updates =
     (if \<not> list_all column_ok updates
      then (Some (ErrStorage ''unknown column or value''), db)
      else (None, db\<lparr>products :=
              gorm_Update (\<lambda>p. product_id p = productID)
                (\<lambda>p. (fold set_column updates p)\<lparr>product_updated_at := now db\<rparr>)
                (products db)\<rparr>))"

text \<open>
  The three writes of the purchase path take the handle \<open>tx\<close> of an open transaction and
  fall back to the repository's own handle when it is nil. The result is the state behind
  the handle that was used. \<open>engine\<close> is the error, if any, with which the storage engine
  refuses the statement; a refused statement writes nothing.

  \<open>UpdateStock\<close> adds \<open>delta\<close> to the stock column in SQL, with no check of the sign of the
  result.
\<close>

definition UpdateStock :: "DB \<Rightarrow> DB option \<Rightarrow> error option \<Rightarrow> nat \<Rightarrow> int \<Rightarrow> error option \<times> DB" where
  "UpdateStock db tx engine productID delta =
     (let tx = (case tx of None \<Rightarrow> db | Some t \<Rightarrow> t)
      in case engine of
           Some err \<Rightarrow> (Some err, tx)
         | None \<Rightarrow>
             (None, tx\<lparr>products :=
                gorm_Update (\<lambda>p. product_id p = productID)
                  (\<lambda>p. p\<lparr>product_stock := product_stock p + delta,
                          product_updated_at := now tx\<rparr>)
                  (products tx)\<rparr>))"

text \<open>
  \<open>CreateTransaction\<close> inserts one ledger row; the engine gives it the next key, and gorm
  the creation time when the row carries none.
\<close>

definition CreateTransaction ::
  "DB \<Rightarrow> DB option \<Rightarrow> error option \<Rightarrow> MarketplaceTransaction \<Rightarrow> error option \<times> DB" where
  "CreateTransaction db tx engine transaction =
     (let tx = (case tx of None \<Rightarrow> db | Some t \<Rightarrow> t)
      in case engine of
           Some err \<Rightarrow> (Some err, tx)
         | None \<Rightarrow>
             (let key = (if mt_id transaction = 0
                         then auto_increment (map mt_id (marketplace_transactions tx))
                         else mt_id transaction);
                  created = (if mt_created_at transaction = 0 then now tx
                             else mt_created_at transaction)
              in if key \<in> set (map mt_id (marketplace_transactions tx))
                 then (Some (ErrStorage ''duplicate entry''), tx)
                 else (None, tx\<lparr>marketplace_transactions :=
                         marketplace_transactions tx
                           @ [transaction\<lparr>mt_id := key, mt_created_at := created\<rparr>]\<rparr>)))"

text \<open>\<open>ClearCart\<close> deletes every cart row of the user.\<close>

definition ClearCart :: "DB \<Rightarrow> DB option \<Rightarrow> error option \<Rightarrow> nat \<Rightarrow> error option \<times> DB" where
  "ClearCart db tx engine userID =
     (let tx = (case tx of None \<Rightarrow> db | Some t \<Rightarrow> t)
      in case engine of
           Some err \<Rightarrow> (Some err, tx)
         | None \<Rightarrow>
             (None, tx\<lparr>cart_items := gorm_Delete (\<lambda>r. cart_user_id r = userID) (cart_items tx)\<rparr>))"

text \<open>
  \<open>AddToCart\<close> looks for the row of the same user and product. When the lookup reports no
  error it updates the quantity of the row it found, addressed by its primary key (gorm
  refuses an update whose model has no key); after any error it inserts the item.
\<close>

definition AddToCart :: "DB \<Rightarrow> CartItem \<Rightarrow> error option \<times> DB" where
  "AddToCart db item =
     (case gorm_First cart_id
             (\<lambda>r. cart_user_id r = cart_user_id item \<and> cart_product_id r = cart_product_id item)
             (cart_items db) of
        Inr existing \<Rightarrow>
          (if cart_id existing = 0 then (Some ErrMissingWhereClause, db)
           else (None, db\<lparr>cart_items :=
                   gorm_Update (\<lambda>r. cart_id r = cart_id existing)
                     (\<lambda>r. r\<lparr>cart_quantity := cart_quantity existing + cart_quantity item\<rparr>)
                     (cart_items db)\<rparr>))
      | Inl err \<Rightarrow>
          (let key = (if cart_id item = 0 then auto_increment (map cart_id (cart_items db))
                      else cart_id item)
           in if key \<in> set (map cart_id (cart_items db))
              then (Some (ErrStorage ''duplicate entry''), db)
              else (None, db\<lparr>cart_items := cart_items db @ [item\<lparr>cart_id := key\<rparr>]\<rparr>)))"

text \<open>
  \<open>GetCart\<close> returns the rows of one user, each with its product preloaded (none when the
  product row is missing).
\<close>

definition GetCart :: "DB \<Rightarrow> nat \<Rightarrow> (CartItem \<times> Product option) list \<times> error option" where
  "GetCart db userID =
     (map (\<lambda>r. (r, find (\<lambda>p. product_id p = cart_product_id r) (products db)))
          (filter (\<lambda>r. cart_user_id r = userID) (cart_items db)),
      None)"

definition UpdateCartItem :: "DB \<Rightarrow> nat \<Rightarrow> nat \<Rightarrow> go_int \<Rightarrow> error option \<times> DB" where
  "UpdateCartItem db userID itemID quantity =
     (None, db\<lparr>cart_items :=
        gorm_Update (\<lambda>r. cart_user_id r = userID \<and> cart_id r = itemID)
          (\<lambda>r. r\<lparr>cart_quantity := quantity\<rparr>)
          (cart_items db)\<rparr>)"

definition RemoveFromCart :: "DB \<Rightarrow> nat \<Rightarrow> nat \<Rightarrow> error option \<times> DB" where
  "RemoveFromCart db userID itemID =
     (None, db\<lparr>cart_items :=
        gorm_Delete (\<lambda>r. cart_user_id r = userID \<and> cart_id r = itemID) (cart_items db)\<rparr>)"

text \<open>
  \<open>GetAllTransactions\<close> left-joins each ledger row with its product, its wallet and the
  wallet's user, counts the joined rows, and returns them latest first within the limit
  and offset it is given. A left join keeps a row without a partner, with empty columns.
\<close>

definition left_join :: "('a \<Rightarrow> 'b \<Rightarrow> bool) \<Rightarrow> 'a list \<Rightarrow> 'b list \<Rightarrow> ('a \<times> 'b option) list" where
  "left_join on xs ys =
     concat (map (\<lambda>x. case filter (on x) ys of
                         [] \<Rightarrow> [(x, None)]
                       | m # ms \<Rightarrow> map (\<lambda>y. (x, Some y)) (m # ms)) xs)"

definition transaction_rows :: "DB \<Rightarrow> MarketplaceTransactionWithDetails list" where
  "transaction_rows db =
     map (\<lambda>(((mt, p), w), u).
            \<lparr>mtd_transaction = mt,
             mtd_product_name = (case p of None \<Rightarrow> [] | Some p \<Rightarrow> product_name p),
             mtd_user_name = (case u of None \<Rightarrow> [] | Some u \<Rightarrow> user_full_name u),
             mtd_user_email = (case u of None \<Rightarrow> [] | Some u \<Rightarrow> user_email u)\<rparr>)
       (left_join (\<lambda>((mt, p), w) u. (case w of None \<Rightarrow> False | Some w \<Rightarrow> wallet_user_id w = user_id u))
          (left_join (\<lambda>(mt, p) w. mt_wallet_id mt = wallet_id w)
             (left_join (\<lambda>mt p. mt_product_id mt = product_id p)
                (marketplace_transactions db) (products db))
             (wallets db))
          (users db))"

definition GetAllTransactions ::
  "DB \<Rightarrow> go_int \<Rightarrow> go_int \<Rightarrow> MarketplaceTransactionWithDetails list \<times> int \<times> error option" where
  "GetAllTransactions db limit offset =
     (let query = transaction_rows db;
          total = int (length query)
      in (gorm_Limit limit (gorm_Offset offset
            (gorm_Order_desc (\<lambda>r. mt_created_at (mtd_transaction r)) query)),
          total, None))"

text \<open>
  The cart table as the repository keeps it: a key identifies a row, no key is zero (the
  engine numbers rows from one), and a user holds at most one row per product.
\<close>

definition cart_key :: "CartItem \<Rightarrow> nat \<times> nat" where
  "cart_key r = (cart_user_id r, cart_product_id r)"

definition cart_wf :: "CartItem list \<Rightarrow> bool" where
  "cart_wf rows =
     (distinct (map cart_id rows) \<and> 0 \<notin> set (map cart_id rows) \<and> distinct (map cart_key rows))"

section \<open>Go's strconv\<close>

text \<open>
  \<open>strconv.ParseUint(s, 10, bitSize)\<close>: the empty string and a byte that is not a decimal
  digit are syntax errors and give 0; a value that does not fit gives the largest value of
  the size and a range error, as soon as the digits read so far overflow.
\<close>

datatype NumError = ErrSyntax | ErrRange

definition is_digit :: "char \<Rightarrow> bool" where
  "is_digit c = (of_char (CHR ''0'') \<le> (of_char c :: nat) \<and> (of_char c :: nat) \<le> of_char (CHR ''9''))"

definition digit_value :: "char \<Rightarrow> nat" where
  "digit_value c = of_char c - of_char (CHR ''0'')"

fun ParseUint_loop :: "nat \<Rightarrow> nat \<Rightarrow> string \<Rightarrow> nat \<times> NumError option" where
  "ParseUint_loop maxVal n [] = (n, None)"
| "ParseUint_loop maxVal n (c # cs) =
     (if \<not> is_digit c then (0, Some ErrSyntax)
      else if (2 ^ 64 - 1) div 10 + 1 \<le> n then (maxVal, Some ErrRange)
      else (let n1 = n * 10 + digit_value c
            in if 2 ^ 64 \<le> n1 \<or> maxVal < n1 then (maxVal, Some ErrRange)
               else ParseUint_loop maxVal n1 cs))"

definition ParseUint :: "string \<Rightarrow> nat \<Rightarrow> nat \<times> NumError option" where
  "ParseUint s bitSize =
     (if s = [] then (0, Some ErrSyntax) else ParseUint_loop (2 ^ bitSize - 1) 0 s)"

text \<open>
  \<open>strconv.ParseInt(s, 10, bitSize)\<close> takes a sign off, parses the rest as an unsigned
  64-bit number and checks the range; \<open>strconv.Atoi\<close> is \<open>ParseInt(s, 10, 0)\<close> as an \<open>int\<close>.
\<close>

definition ParseInt :: "string \<Rightarrow> nat \<Rightarrow> int \<times> NumError option" where
  "ParseInt s bitSize =
     (case s of
        [] \<Rightarrow> (0, Some ErrSyntax)
      | c # cs \<Rightarrow>
          (let neg = (c = CHR ''-'');
               s' = (if c = CHR ''+'' \<or> c = CHR ''-'' then cs else s);
               cutoff = 2 ^ (bitSize - 1)
           in case ParseUint s' 64 of
                (un, Some ErrSyntax) \<Rightarrow> (0, Some ErrSyntax)
              | (un, err) \<Rightarrow>
                  (if \<not> neg \<and> cutoff \<le> un then (int cutoff - 1, Some ErrRange)
                   else if neg \<and> cutoff < un then (- int cutoff, Some ErrRange)
                   else (if neg then - int un else int un, None))))"

definition Atoi :: "string \<Rightarrow> go_int \<times> NumError option" where
  "Atoi s = (case ParseInt s 64 of (i64, err) \<Rightarrow> (word_of_int i64, err))"

text \<open>\<open>strconv.FormatUint(n, 10)\<close> and the \<open>%d\<close> verb: the decimal digits of a number.\<close>

fun FormatUint :: "nat \<Rightarrow> string" where
  "FormatUint n =
     (if n < 10 then [''0123456789'' ! n]
      else FormatUint (n div 10) @ [''0123456789'' ! (n mod 10)])"

declare FormatUint.simps [simp del]

section \<open>The request context\<close>

text \<open>
  What a handler reads from \<open>*gin.Context\<close>: path parameters, the query string, the keys
  the middleware has set (values of type \<open>any\<close>), the caller's address and user agent, and
  the outcome of binding the JSON body: a message when the body is malformed.
\<close>

datatype any = AnyNil | AnyString string | AnyUint nat

record 'b Context =
  Params :: "string \<Rightarrow> string"
  QueryValues :: "string \<Rightarrow> string option"
  Keys :: "string \<Rightarrow> any option"
  ClientIP :: string
  Request_UserAgent :: string
  ShouldBindJSON :: "string + 'b"

definition Query :: "'b Context \<Rightarrow> string \<Rightarrow> string" where
  "Query c key = (case QueryValues c key of None \<Rightarrow> [] | Some v \<Rightarrow> v)"

definition DefaultQuery :: "'b Context \<Rightarrow> string \<Rightarrow> string \<Rightarrow> string" where
  "DefaultQuery c key defaultValue =
     (case QueryValues c key of None \<Rightarrow> defaultValue | Some v \<Rightarrow> v)"

definition Get :: "'b Context \<Rightarrow> string \<Rightarrow> any" where
  "Get c key = (case Keys c key of None \<Rightarrow> AnyNil | Some v \<Rightarrow> v)"

definition GetUint :: "'b Context \<Rightarrow> string \<Rightarrow> nat" where
  "GetUint c key = (case Keys c key of Some (AnyUint n) \<Rightarrow> n | _ \<Rightarrow> 0)"

text \<open>
  The response helpers of \<open>utils\<close>: a success with status, message and data; an error with
  status, message and an optional detail; a validation error with its message.
\<close>

datatype 'd response =
    SuccessResponse nat string 'd
  | ErrorResponse nat string "string option"
  | ValidationErrorResponse string

text \<open>The audit collaborator: \<open>LogActivity\<close> records one entry.\<close>

record CreateAuditParams =
  UserID :: nat
  Action :: string
  Entity :: string
  EntityID :: nat
  Details :: string
  IPAddress :: string
  UserAgent :: string

record World =
  world_db :: DB
  world_audit :: "CreateAuditParams list"

definition LogActivity :: "CreateAuditParams \<Rightarrow> World \<Rightarrow> World" where
  "LogActivity params w = w\<lparr>world_audit := world_audit w @ [params]\<rparr>"

section \<open>Handlers\<close>

text \<open>
  A handler parses the request, calls one method of the service and writes the response;
  after a success of a product or purchase operation it records an audit entry. The
  service is not among the sources: each handler takes the method it calls as its first
  argument, a function from the database to a result and the database it leaves.
\<close>

text \<open>
  Modelled from the spec: the request bodies are declared outside the sources. A purchase
  carries \<open>product_id\<close> and \<open>quantity\<close> (the handler reads \<open>req.ProductID\<close>); a cart update
  carries the new quantity (the handler reads \<open>req.Quantity\<close>). The bodies of create,
  update, add-to-cart and checkout are type parameters of their handlers, which only pass
  them on. The line that add-to-cart prints to standard output is left out.
\<close>

record PurchaseRequest =
  purchase_product_id :: nat
  purchase_quantity :: int

record UpdateCartRequest =
  update_quantity :: go_int

definition Handler_GetAll ::
  "(ProductListParams \<Rightarrow> DB \<Rightarrow> (error + 'r) \<times> DB) \<Rightarrow> 'b Context \<Rightarrow> World \<Rightarrow> 'r response \<times> World" where
  "Handler_GetAll GetAllProducts c w =
     (let status = Query c ''status'';
          page = fst (Atoi (DefaultQuery c ''page'' ''1''));
          limit = fst (Atoi (DefaultQuery c ''limit'' ''20''));
          role = Get c ''role'';
          status = (if role = AnyString ''mahasiswa'' then ''active'' else status);
          params = \<lparr>Status = status, Page = page, Limit = limit\<rparr>
      in case GetAllProducts params (world_db w) of
           (Inl err, db') \<Rightarrow>
             (ErrorResponse 500 ''Failed to retrieve products'' (Some (Error err)),
              w\<lparr>world_db := db'\<rparr>)
         | (Inr response, db') \<Rightarrow>
             (SuccessResponse 200 ''Products retrieved successfully'' response,
              w\<lparr>world_db := db'\<rparr>))"

definition Handler_GetByID ::
  "(nat \<Rightarrow> DB \<Rightarrow> (error + 'r) \<times> DB) \<Rightarrow> 'b Context \<Rightarrow> World \<Rightarrow> 'r response \<times> World" where
  "Handler_GetByID GetProductByID c w =
     (case ParseUint (Params c ''id'') 32 of
        (productID, Some err) \<Rightarrow> (ErrorResponse 400 ''Invalid product ID'' None, w)
      | (productID, None) \<Rightarrow>
          (case GetProductByID productID (world_db w) of
             (Inl err, db') \<Rightarrow> (ErrorResponse 404 (Error err) None, w\<lparr>world_db := db'\<rparr>)
           | (Inr product, db') \<Rightarrow>
               (SuccessResponse 200 ''Product retrieved successfully'' product,
                w\<lparr>world_db := db'\<rparr>)))"

definition Handler_Create ::
  "('b \<Rightarrow> nat \<Rightarrow> DB \<Rightarrow> (error + Product) \<times> DB) \<Rightarrow> 'b Context \<Rightarrow> World
     \<Rightarrow> Product response \<times> World" where
  "Handler_Create CreateProduct c w =
     (let adminID = GetUint c ''user_id''
      in case ShouldBindJSON c of
           Inl err \<Rightarrow> (ValidationErrorResponse err, w)
         | Inr req \<Rightarrow>
             (case CreateProduct req adminID (world_db w) of
                (Inl err, db') \<Rightarrow> (ErrorResponse 400 (Error err) None, w\<lparr>world_db := db'\<rparr>)
              | (Inr product, db') \<Rightarrow>
                  (SuccessResponse 201 ''Product created successfully'' product,
                   LogActivity
                     \<lparr>UserID = adminID, Action = ''CREATE_PRODUCT'', Entity = ''PRODUCT'',
                      EntityID = product_id product,
                      Details = ''Admin created new product: '' @ product_name product,
                      IPAddress = ClientIP c, UserAgent = Request_UserAgent c\<rparr>
                     (w\<lparr>world_db := db'\<rparr>))))"

definition Handler_Update ::
  "(nat \<Rightarrow> 'b \<Rightarrow> DB \<Rightarrow> (error + Product) \<times> DB) \<Rightarrow> 'b Context \<Rightarrow> World
     \<Rightarrow> Product response \<times> World" where
  "Handler_Update UpdateProduct c w =
     (case ParseUint (Params c ''id'') 32 of
        (productID, Some err) \<Rightarrow> (ErrorResponse 400 ''Invalid product ID'' None, w)
      | (productID, None) \<Rightarrow>
          (case ShouldBindJSON c of
             Inl err \<Rightarrow> (ValidationErrorResponse err, w)
           | Inr req \<Rightarrow>
               (case UpdateProduct productID req (world_db w) of
                  (Inl err, db') \<Rightarrow>
                    (let statusCode = (if Error err = ''product not found'' then 404 else 400)
                     in (ErrorResponse statusCode (Error err) None, w\<lparr>world_db := db'\<rparr>))
                | (Inr product, db') \<Rightarrow>
                    (let adminID = GetUint c ''user_id''
                     in (SuccessResponse 200 ''Product updated successfully'' product,
                         LogActivity
                           \<lparr>UserID = adminID, Action = ''UPDATE_PRODUCT'', Entity = ''PRODUCT'',
                            EntityID = product_id product,
                            Details = ''Admin updated product: '' @ product_name product,
                            IPAddress = ClientIP c, UserAgent = Request_UserAgent c\<rparr>
                           (w\<lparr>world_db := db'\<rparr>))))))"

definition Handler_Delete ::
  "(nat \<Rightarrow> DB \<Rightarrow> error option \<times> DB) \<Rightarrow> 'b Context \<Rightarrow> World \<Rightarrow> unit response \<times> World" where
  "Handler_Delete DeleteProduct c w =
     (case ParseUint (Params c ''id'') 32 of
        (productID, Some err) \<Rightarrow> (ErrorResponse 400 ''Invalid product ID'' None, w)
      | (productID, None) \<Rightarrow>
          (case DeleteProduct productID (world_db w) of
             (Some err, db') \<Rightarrow>
               (let statusCode = (if Error err = ''product not found'' then 404 else 400)
                in (ErrorResponse statusCode (Error err) None, w\<lparr>world_db := db'\<rparr>))
           | (None, db') \<Rightarrow>
               (let adminID = GetUint c ''user_id''
                in (SuccessResponse 200 ''Product deleted successfully'' (),
                    LogActivity
                      \<lparr>UserID = adminID, Action = ''DELETE_PRODUCT'', Entity = ''PRODUCT'',
                       EntityID = productID,
                       Details = ''Admin deleted product ID: '' @ FormatUint productID,
                       IPAddress = ClientIP c, UserAgent = Request_UserAgent c\<rparr>
                      (w\<lparr>world_db := db'\<rparr>)))))"

definition Handler_Purchase ::
  "(nat \<Rightarrow> PurchaseRequest \<Rightarrow> DB \<Rightarrow> error option \<times> DB) \<Rightarrow> PurchaseRequest Context \<Rightarrow> World
     \<Rightarrow> unit response \<times> World" where
  "Handler_Purchase PurchaseProduct c w =
     (let userID = GetUint c ''user_id''
      in case ShouldBindJSON c of
           Inl err \<Rightarrow> (ValidationErrorResponse err, w)
         | Inr req \<Rightarrow>
             (case PurchaseProduct userID req (world_db w) of
                (Some err, db') \<Rightarrow> (ErrorResponse 400 (Error err) None, w\<lparr>world_db := db'\<rparr>)
              | (None, db') \<Rightarrow>
                  (SuccessResponse 200 ''Purchase successful'' (),
                   LogActivity
                     \<lparr>UserID = userID, Action = ''PURCHASE_PRODUCT'', Entity = ''PRODUCT'',
                      EntityID = purchase_product_id req,
                      Details = ''User purchased units of product ID ''
                                  @ FormatUint (purchase_product_id req),
                      IPAddress = ClientIP c, UserAgent = Request_UserAgent c\<rparr>
                     (w\<lparr>world_db := db'\<rparr>))))"

text \<open>The three cart handlers answer without an audit entry.\<close>

definition Handler_AddToCart ::
  "(nat \<Rightarrow> 'b \<Rightarrow> DB \<Rightarrow> error option \<times> DB) \<Rightarrow> 'b Context \<Rightarrow> World \<Rightarrow> unit response \<times> World" where
  "Handler_AddToCart AddToCart_service c w =
     (let userID = GetUint c ''user_id''
      in case ShouldBindJSON c of
           Inl err \<Rightarrow> (ValidationErrorResponse err, w)
         | Inr req \<Rightarrow>
             (case AddToCart_service userID req (world_db w) of
                (Some err, db') \<Rightarrow> (ErrorResponse 400 (Error err) None, w\<lparr>world_db := db'\<rparr>)
              | (None, db') \<Rightarrow>
                  (SuccessResponse 200 ''Produk berhasil ditambahkan ke keranjang'' (),
                   w\<lparr>world_db := db'\<rparr>)))"

text \<open>
  \<open>UpdateCartItem\<close> and \<open>RemoveFromCart\<close> drop the error of \<open>ParseUint\<close> and go on with the
  number it returned.
\<close>

definition Handler_UpdateCartItem ::
  "(nat \<Rightarrow> nat \<Rightarrow> go_int \<Rightarrow> DB \<Rightarrow> error option \<times> DB) \<Rightarrow> UpdateCartRequest Context \<Rightarrow> World
     \<Rightarrow> unit response \<times> World" where
  "Handler_UpdateCartItem UpdateCartItem_service c w =
     (let userID = GetUint c ''user_id'';
          itemID = fst (ParseUint (Params c ''id'') 32)
      in case ShouldBindJSON c of
           Inl err \<Rightarrow> (ValidationErrorResponse err, w)
         | Inr req \<Rightarrow>
             (case UpdateCartItem_service userID itemID (update_quantity req) (world_db w) of
                (Some err, db') \<Rightarrow> (ErrorResponse 400 (Error err) None, w\<lparr>world_db := db'\<rparr>)
              | (None, db') \<Rightarrow>
                  (SuccessResponse 200 ''Keranjang berhasil diperbarui'' (),
                   w\<lparr>world_db := db'\<rparr>)))"

definition Handler_RemoveFromCart ::
  "(nat \<Rightarrow> nat \<Rightarrow> DB \<Rightarrow> error option \<times> DB) \<Rightarrow> 'b Context \<Rightarrow> World \<Rightarrow> unit response \<times> World" where
  "Handler_RemoveFromCart RemoveFromCart_service c w =
     (let userID = GetUint c ''user_id'';
          itemID = fst (ParseUint (Params c ''id'') 32)
      in case RemoveFromCart_service userID itemID (world_db w) of
           (Some err, db') \<Rightarrow> (ErrorResponse 400 (Error err) None, w\<lparr>world_db := db'\<rparr>)
         | (None, db') \<Rightarrow>
             (SuccessResponse 200 ''Produk berhasil dihapus dari keranjang'' (),
              w\<lparr>world_db := db'\<rparr>))"

definition Handler_Checkout ::
  "(nat \<Rightarrow> 'b \<Rightarrow> DB \<Rightarrow> error option \<times> DB) \<Rightarrow> 'b Context \<Rightarrow> World \<Rightarrow> unit response \<times> World" where
  "Handler_Checkout Checkout c w =
     (let userID = GetUint c ''user_id''
      in case ShouldBindJSON c of
           Inl err \<Rightarrow> (ValidationErrorResponse err, w)
         | Inr req \<Rightarrow>
             (case Checkout userID req (world_db w) of
                (Some err, db') \<Rightarrow> (ErrorResponse 400 (Error err) None, w\<lparr>world_db := db'\<rparr>)
              | (None, db') \<Rightarrow>
                  (SuccessResponse 200 ''Checkout berhasil!'' (),
                   LogActivity
                     \<lparr>UserID = userID, Action = ''CART_CHECKOUT'', Entity = ''WALLET'',
                      EntityID = userID,
                      Details = ''User completed checkout from cart'',
                      IPAddress = ClientIP c, UserAgent = Request_UserAgent c\<rparr>
                     (w\<lparr>world_db := db'\<rparr>))))"

section \<open>Service\<close>

text \<open>
  The service layer (\<open>MarketplaceService\<close>) is not among the sources. The methods the
  claims need are written from the spec's component design (sections 4.1 to 4.4) over the
  repository above; each takes the database last and returns it with its result.
\<close>

text \<open>
  Modelled from the spec: a paginated list response holds the items with total, page and
  limit (section 6); the service's \<open>GetAllProducts\<close> is missing, and listing is filter by
  status and paginate by page and limit (section 4.1), which is the repository's \<open>GetAll\<close>.
\<close>

record ProductListResponse =
  list_products :: "Product list"
  list_total :: int
  list_page :: go_int
  list_limit :: go_int

definition Service_GetAllProducts :: "ProductListParams \<Rightarrow> DB \<Rightarrow> (error + ProductListResponse) \<times> DB" where
  "Service_GetAllProducts params db =
     (case GetAll db params of
        Inl err \<Rightarrow> (Inl err, db)
      | Inr (items, n) \<Rightarrow>
          (Inr \<lparr>list_products = items, list_total = n,
                list_page = Page params, list_limit = Limit params\<rparr>, db))"

text \<open>
  Modelled from the spec: the service's \<open>GetProductByID\<close> is missing; get-by-id reports
  not-found when the id is absent (section 4.1), which is the repository's \<open>FindByID\<close>.
\<close>

definition Service_GetProductByID :: "nat \<Rightarrow> DB \<Rightarrow> (error + Product) \<times> DB" where
  "Service_GetProductByID productID db = (FindByID db productID, db)"

text \<open>
  Modelled from the spec: the service's \<open>UpdateProduct\<close> and its request are missing;
  update takes a partial field set (name, description, price, stock, status), reports
  not-found when the id is absent, writes the fields the request carries through the
  repository's \<open>Update\<close> and returns the product.
\<close>

record UpdateProductRequest =
  new_name :: "string option"
  new_description :: "string option"
  new_price :: "int option"
  new_stock :: "int option"
  new_status :: "string option"

definition update_columns :: "UpdateProductRequest \<Rightarrow> (string \<times> column_value) list" where
  "update_columns req =
     (case new_name req of None \<Rightarrow> [] | Some v \<Rightarrow> [(''name'', VString v)])
     @ (case new_description req of None \<Rightarrow> [] | Some v \<Rightarrow> [(''description'', VString v)])
     @ (case new_price req of None \<Rightarrow> [] | Some v \<Rightarrow> [(''price'', VInt v)])
     @ (case new_stock req of None \<Rightarrow> [] | Some v \<Rightarrow> [(''stock'', VInt v)])
     @ (case new_status req of None \<Rightarrow> [] | Some v \<Rightarrow> [(''status'', VString v)])"

definition Service_UpdateProduct :: "nat \<Rightarrow> UpdateProductRequest \<Rightarrow> DB \<Rightarrow> (error + Product) \<times> DB" where
  "Service_UpdateProduct productID req db =
     (case FindByID db productID of
        Inl err \<Rightarrow> (Inl err, db)
      | Inr product \<Rightarrow>
          (case Update db productID (update_columns req) of
             (Some err, db') \<Rightarrow> (Inl err, db')
           | (None, db') \<Rightarrow> (FindByID db' productID, db')))"

text \<open>
  Modelled from the spec: the service's \<open>DeleteProduct\<close> is missing; delete reports
  not-found when the id is absent and otherwise sets the status to inactive, which is the
  repository's \<open>Delete\<close>.
\<close>

definition Service_DeleteProduct :: "nat \<Rightarrow> DB \<Rightarrow> error option \<times> DB" where
  "Service_DeleteProduct productID db =
     (case FindByID db productID of
        Inl err \<Rightarrow> (Some err, db)
      | Inr product \<Rightarrow> Delete db productID)"


text \<open>
  Modelled from the spec: the service's \<open>RemoveFromCart\<close> is missing; remove-item removes
  an item of the authenticated user (section 4.2), which is the repository's statement.
\<close>

definition Service_RemoveFromCart :: "nat \<Rightarrow> nat \<Rightarrow> DB \<Rightarrow> error option \<times> DB" where
  "Service_RemoveFromCart userID itemID db = RemoveFromCart db userID itemID"

text \<open>
  Modelled from the spec: the service's \<open>GetTransactions\<close> is missing; the ledger query is
  a paginated read with offset = (page - 1) * limit (section 4.4), computed on Go \<open>int\<close>s.
\<close>

definition Service_GetTransactions ::
  "go_int \<Rightarrow> go_int \<Rightarrow> DB \<Rightarrow> MarketplaceTransactionWithDetails list \<times> int \<times> error option" where
  "Service_GetTransactions limit page db = GetAllTransactions db limit ((page - 1) * limit)"

subsection \<open>The purchase and checkout engine\<close>

text \<open>
  The engine of section 4.3 runs its steps inside one database transaction: read stock and
  price of every line, verify each quantity against stock, total the cost and verify the
  wallet balance, debit the wallet, decrement the stock of every line, write one ledger row
  per line, and on checkout clear the cart. The storage engine may refuse any statement.
\<close>

text \<open>
  Modelled from the spec: the statements of a purchase that the storage engine can refuse
  (a storage failure, section 7); a function from statements to errors says which it
  refuses, and with what error.
\<close>

datatype statement =
    DebitStatement
  | StockStatement nat
  | LedgerStatement nat
  | ClearCartStatement
  | CommitStatement

text \<open>
  Modelled from the spec: the transaction boundary. The body runs on the transaction's
  handle; an error of the body, or of the commit, rolls back to the database before the
  call.
\<close>

definition Transaction :: "error option \<Rightarrow> (DB \<Rightarrow> error + DB) \<Rightarrow> DB \<Rightarrow> error option \<times> DB" where
  "Transaction commit body db =
     (case body db of
        Inl err \<Rightarrow> (Some err, db)
      | Inr tx \<Rightarrow> (case commit of Some err \<Rightarrow> (Some err, db) | None \<Rightarrow> (None, tx)))"

text \<open>
  Modelled from the spec: step 4, the debit of the wallet by the total; the wallet module
  is missing.
\<close>

definition DebitWallet :: "DB \<Rightarrow> error option \<Rightarrow> nat \<Rightarrow> int \<Rightarrow> error option \<times> DB" where
  "DebitWallet tx engine walletID amount =
     (case engine of
        Some err \<Rightarrow> (Some err, tx)
      | None \<Rightarrow>
          (None, tx\<lparr>wallets :=
             gorm_Update (\<lambda>w. wallet_id w = walletID)
               (\<lambda>w. w\<lparr>wallet_balance := wallet_balance w - amount\<rparr>) (wallets tx)\<rparr>))"

text \<open>
  Modelled from the spec: steps 1 and 2, reading every referenced product and failing the
  whole operation when a product is missing or a quantity exceeds the stock.
\<close>

fun read_lines :: "DB \<Rightarrow> (nat \<times> int) list \<Rightarrow> error + (Product \<times> int) list" where
  "read_lines tx [] = Inr []"
| "read_lines tx ((productID, quantity) # rest) =
     (case FindByID tx productID of
        Inl err \<Rightarrow> Inl err
      | Inr product \<Rightarrow>
          (if product_stock product < quantity then Inl (ErrNew ''insufficient stock'')
           else (case read_lines tx rest of
                   Inl err \<Rightarrow> Inl err
                 | Inr lines \<Rightarrow> Inr ((product, quantity) # lines))))"

text \<open>Modelled from the spec: step 3, the total point cost across all lines.\<close>

definition total_cost :: "(Product \<times> int) list \<Rightarrow> int" where
  "total_cost lines = sum_list (map (\<lambda>(product, quantity). product_price product * quantity) lines)"

text \<open>
  Modelled from the spec: step 5, decrementing each product's stock by its purchased
  quantity, through the repository's \<open>UpdateStock\<close> on the transaction's handle.
\<close>

fun decrement_stock :: "(statement \<Rightarrow> error option) \<Rightarrow> DB \<Rightarrow> (Product \<times> int) list \<Rightarrow> DB \<Rightarrow> error + DB" where
  "decrement_stock faults db [] tx = Inr tx"
| "decrement_stock faults db ((product, quantity) # lines) tx =
     (case UpdateStock db (Some tx) (faults (StockStatement (product_id product)))
             (product_id product) (- quantity) of
        (Some err, tx') \<Rightarrow> Inl err
      | (None, tx') \<Rightarrow> decrement_stock faults db lines tx')"

text \<open>
  Modelled from the spec: step 6, one ledger row per purchased line, through the
  repository's \<open>CreateTransaction\<close> on the transaction's handle.
\<close>

fun write_ledger ::
  "(statement \<Rightarrow> error option) \<Rightarrow> DB \<Rightarrow> nat \<Rightarrow> (Product \<times> int) list \<Rightarrow> DB \<Rightarrow> error + DB" where
  "write_ledger faults db walletID [] tx = Inr tx"
| "write_ledger faults db walletID ((product, quantity) # lines) tx =
     (case CreateTransaction db (Some tx) (faults (LedgerStatement (product_id product)))
             \<lparr>mt_id = 0, mt_wallet_id = walletID, mt_product_id = product_id product,
              mt_quantity = quantity, mt_amount = product_price product * quantity,
              mt_created_at = 0\<rparr> of
        (Some err, tx') \<Rightarrow> Inl err
      | (None, tx') \<Rightarrow> write_ledger faults db walletID lines tx')"

text \<open>
  Modelled from the spec: the seven steps in order, for a list of (product, quantity)
  lines; step 7, clearing the user's cart through the repository's \<open>ClearCart\<close>, runs on
  checkout only.
\<close>

definition purchase_lines ::
  "(statement \<Rightarrow> error option) \<Rightarrow> DB \<Rightarrow> nat \<Rightarrow> (nat \<times> int) list \<Rightarrow> bool \<Rightarrow> DB \<Rightarrow> error + DB" where
  "purchase_lines faults db userID requested clear_cart tx =
     (case read_lines tx requested of
        Inl err \<Rightarrow> Inl err
      | Inr lines \<Rightarrow>
          (case find (\<lambda>w. wallet_user_id w = userID) (wallets tx) of
             None \<Rightarrow> Inl (ErrNew ''wallet not found'')
           | Some wallet \<Rightarrow>
               (if wallet_balance wallet < total_cost lines
                then Inl (ErrNew ''insufficient balance'')
                else (case DebitWallet tx (faults DebitStatement) (wallet_id wallet)
                             (total_cost lines) of
                        (Some err, tx1) \<Rightarrow> Inl err
                      | (None, tx1) \<Rightarrow>
                          (case decrement_stock faults db lines tx1 of
                             Inl err \<Rightarrow> Inl err
                           | Inr tx2 \<Rightarrow>
                               (case write_ledger faults db (wallet_id wallet) lines tx2 of
                                  Inl err \<Rightarrow> Inl err
                                | Inr tx3 \<Rightarrow>
                                    (if clear_cart
                                     then (case ClearCart db (Some tx3) (faults ClearCartStatement) userID of
                                             (Some err, tx4) \<Rightarrow> Inl err
                                           | (None, tx4) \<Rightarrow> Inr tx4)
                                     else Inr tx3)))))))"

text \<open>
  Modelled from the spec: the service's \<open>PurchaseProduct\<close> is missing; a purchase is the
  engine on the single line of the request.
\<close>

definition Service_PurchaseProduct ::
  "(statement \<Rightarrow> error option) \<Rightarrow> nat \<Rightarrow> PurchaseRequest \<Rightarrow> DB \<Rightarrow> error option \<times> DB" where
  "Service_PurchaseProduct faults userID req db =
     Transaction (faults CommitStatement)
       (purchase_lines faults db userID [(purchase_product_id req, purchase_quantity req)] False)
       db"

text \<open>
  Modelled from the spec: the service's \<open>Checkout\<close> is missing; a checkout is the engine
  on the user's entire cart, one line per cart row, read inside the transaction.
\<close>

definition Service_Checkout ::
  "(statement \<Rightarrow> error option) \<Rightarrow> nat \<Rightarrow> 'b \<Rightarrow> DB \<Rightarrow> error option \<times> DB" where
  "Service_Checkout faults userID req db =
     Transaction (faults CommitStatement)
       (\<lambda>tx. purchase_lines faults db userID
                (map (\<lambda>(item, product). (cart_product_id item, sint (cart_quantity item)))
                     (fst (GetCart tx userID)))
                True tx)
       db"

section \<open>Facts about the query clauses\<close>

lemma gorm_First_unique:
  assumes "r \<in> set rows" "cond r" "\<forall>x \<in> set rows. cond x \<longrightarrow> x = r"
  shows "gorm_First pk cond rows = Inr r"
proof (cases "find cond (sort_key pk rows)")
  case None
  have "\<not> (\<exists>x. x \<in> set (sort_key pk rows) \<and> cond x)"
    using None by (simp add: find_None_iff)
  then have False using assms(1,2) by simp
  then show ?thesis ..
next
  case (Some x)
  then obtain i where "i < length (sort_key pk rows)" "x = sort_key pk rows ! i" "cond x"
    unfolding find_Some_iff by blast
  then have "x \<in> set (sort_key pk rows)" by (metis nth_mem)
  then have "x \<in> set rows" by simp
  then have "x = r" using assms(3) \<open>cond x\<close> by blast
  then show ?thesis using Some by (simp add: gorm_First_def)
qed

lemma foldr_max_bound: "i \<in> set ids \<Longrightarrow> i \<le> foldr max ids (0::nat)"
  by (induction ids) auto

lemma auto_increment_bound: "i \<in> set ids \<Longrightarrow> i < auto_increment ids"
  unfolding auto_increment_def using foldr_max_bound [of i ids] by simp

lemma gorm_First_none: "(\<forall>r \<in> set rows. \<not> cond r) \<Longrightarrow> gorm_First pk cond rows = Inl ErrRecordNotFound"
  by (simp add: gorm_First_def find_None_iff split: option.splits)

section \<open>The cart holds one row per user and product\<close>

lemma distinct_map_eq:
  "distinct (map f rows) \<Longrightarrow> x \<in> set rows \<Longrightarrow> y \<in> set rows \<Longrightarrow> f x = f y \<Longrightarrow> x = y"
  by (auto simp: distinct_map dest: inj_onD)

lemma AddToCart_existing:
  assumes wf: "cart_wf (cart_items db)"
    and r: "r \<in> set (cart_items db)"
    and key: "cart_key r = cart_key item"
  shows "AddToCart db item =
           (None, db\<lparr>cart_items :=
              map (\<lambda>x. if x = r then r\<lparr>cart_quantity := cart_quantity r + cart_quantity item\<rparr> else x)
                  (cart_items db)\<rparr>)"
proof -
  let ?cond = "\<lambda>x. cart_user_id x = cart_user_id item \<and> cart_product_id x = cart_product_id item"
  have cond_key: "?cond x \<longleftrightarrow> cart_key x = cart_key item" for x
    by (auto simp: cart_key_def)
  have uniq: "\<forall>x \<in> set (cart_items db). ?cond x \<longrightarrow> x = r"
  proof (intro ballI impI)
    fix x assume "x \<in> set (cart_items db)" "?cond x"
    then have "cart_key x = cart_key r" using key cond_key by simp
    moreover have "distinct (map cart_key (cart_items db))"
      using wf unfolding cart_wf_def by blast
    ultimately show "x = r"
      using r \<open>x \<in> set (cart_items db)\<close> by (blast intro: distinct_map_eq)
  qed
  have condr: "?cond r"
    using key by (simp add: cart_key_def)
  have first: "gorm_First cart_id ?cond (cart_items db) = Inr r"
    using r condr uniq by (rule gorm_First_unique)
  have nz: "cart_id r \<noteq> 0"
    using wf r by (auto simp: cart_wf_def)
  have upd: "gorm_Update (\<lambda>x. cart_id x = cart_id r)
               (\<lambda>x. x\<lparr>cart_quantity := cart_quantity r + cart_quantity item\<rparr>) (cart_items db)
             = map (\<lambda>x. if x = r then r\<lparr>cart_quantity := cart_quantity r + cart_quantity item\<rparr> else x)
                 (cart_items db)"
    unfolding gorm_Update_def
  proof (rule map_cong [OF refl])
    fix x assume x: "x \<in> set (cart_items db)"
    have "distinct (map cart_id (cart_items db))"
      using wf unfolding cart_wf_def by blast
    then have "cart_id x = cart_id r \<longleftrightarrow> x = r"
      using r x by (blast intro: distinct_map_eq)
    then show "(if cart_id x = cart_id r then x\<lparr>cart_quantity := cart_quantity r + cart_quantity item\<rparr> else x)
             = (if x = r then r\<lparr>cart_quantity := cart_quantity r + cart_quantity item\<rparr> else x)"
      by auto
  qed
  show ?thesis
    unfolding AddToCart_def first using nz upd by simp
qed

lemma AddToCart_new:
  assumes none: "\<forall>r \<in> set (cart_items db). cart_key r \<noteq> cart_key item"
    and fresh: "cart_id item = 0"
  shows "AddToCart db item =
           (None, db\<lparr>cart_items :=
              cart_items db @ [item\<lparr>cart_id := auto_increment (map cart_id (cart_items db))\<rparr>]\<rparr>)"
proof -
  let ?cond = "\<lambda>x. cart_user_id x = cart_user_id item \<and> cart_product_id x = cart_product_id item"
  have "\<forall>x \<in> set (cart_items db). \<not> ?cond x"
    using none by (auto simp: cart_key_def)
  then have first: "gorm_First cart_id ?cond (cart_items db) = Inl ErrRecordNotFound"
    by (rule gorm_First_none)
  have "auto_increment (map cart_id (cart_items db)) \<notin> set (map cart_id (cart_items db))"
    using auto_increment_bound [of "auto_increment (map cart_id (cart_items db))" "map cart_id (cart_items db)"]
    by blast
  then show ?thesis
    unfolding AddToCart_def first using fresh by (simp add: Let_def)
qed

lemma cart_wf_update:
  assumes wf: "cart_wf rows"
  shows "cart_wf (map (\<lambda>x. if x = r then r\<lparr>cart_quantity := q\<rparr> else x) rows)"
proof -
  have ids: "map cart_id (map (\<lambda>x. if x = r then r\<lparr>cart_quantity := q\<rparr> else x) rows) = map cart_id rows"
    by (induction rows) auto
  have keys: "map cart_key (map (\<lambda>x. if x = r then r\<lparr>cart_quantity := q\<rparr> else x) rows) = map cart_key rows"
    by (induction rows) (auto simp: cart_key_def)
  show ?thesis
    unfolding cart_wf_def ids keys using wf unfolding cart_wf_def by blast
qed

lemma cart_wf_insert:
  assumes wf: "cart_wf rows"
    and none: "\<forall>r \<in> set rows. cart_key r \<noteq> cart_key item"
  shows "cart_wf (rows @ [item\<lparr>cart_id := auto_increment (map cart_id rows)\<rparr>])"
proof -
  let ?k = "auto_increment (map cart_id rows)"
  have k: "?k \<notin> set (map cart_id rows)"
    using auto_increment_bound [of ?k "map cart_id rows"] by blast
  have nz: "?k \<noteq> 0" by (simp add: auto_increment_def)
  have key: "cart_key (item\<lparr>cart_id := ?k\<rparr>) = cart_key item"
    by (simp add: cart_key_def)
  have "cart_key item \<notin> set (map cart_key rows)"
    using none by auto
  then show ?thesis
    using wf k nz key unfolding cart_wf_def by simp
qed

lemma AddToCart_wf:
  assumes wf: "cart_wf (cart_items db)" and fresh: "cart_id item = 0"
  shows "cart_wf (cart_items (snd (AddToCart db item)))"
proof (cases "\<exists>r \<in> set (cart_items db). cart_key r = cart_key item")
  case True
  then obtain r where r: "r \<in> set (cart_items db)" "cart_key r = cart_key item" by blast
  show ?thesis
    unfolding AddToCart_existing [OF wf r] using cart_wf_update [OF wf] by simp
next
  case False
  then have none: "\<forall>r \<in> set (cart_items db). cart_key r \<noteq> cart_key item" by blast
  show ?thesis
    unfolding AddToCart_new [OF none fresh] using cart_wf_insert [OF wf none] by simp
qed

lemma distinct_key_count:
  "distinct (map f rows) \<Longrightarrow> x \<in> set rows \<Longrightarrow> length (filter (\<lambda>y. f y = f x) rows) = 1"
proof (induction rows)
  case Nil
  then show ?case by simp
next
  case (Cons a rows)
  show ?case
  proof (cases "x = a")
    case True
    have "f a \<notin> f ` set rows"
      using Cons.prems(1) by simp
    then have "\<forall>y \<in> set rows. f y \<noteq> f a"
      by (metis imageI)
    then have "filter (\<lambda>y. f y = f a) rows = []"
      by (simp add: filter_empty_conv)
    then show ?thesis using True by simp
  next
    case False
    then have x: "x \<in> set rows" using Cons.prems(2) by simp
    then have "f x \<in> f ` set rows" by (rule imageI)
    then have "f a \<noteq> f x" using Cons.prems(1) by auto
    then show ?thesis using Cons.IH x Cons.prems(1) by simp
  qed
qed

lemma AddToCart_one_row:
  assumes wf: "cart_wf (cart_items db)" and fresh: "cart_id item = 0"
  shows "length (filter (\<lambda>x. cart_key x = cart_key item) (cart_items (snd (AddToCart db item)))) = 1"
proof -
  have wf': "distinct (map cart_key (cart_items (snd (AddToCart db item))))"
    using AddToCart_wf [OF wf fresh] unfolding cart_wf_def by blast
  have "\<exists>y \<in> set (cart_items (snd (AddToCart db item))). cart_key y = cart_key item"
  proof (cases "\<exists>r \<in> set (cart_items db). cart_key r = cart_key item")
    case True
    then obtain r where r: "r \<in> set (cart_items db)" "cart_key r = cart_key item" by blast
    have "r\<lparr>cart_quantity := cart_quantity r + cart_quantity item\<rparr>
            \<in> set (cart_items (snd (AddToCart db item)))"
      unfolding AddToCart_existing [OF wf r] using r(1) by (simp add: image_iff)
    moreover have "cart_key (r\<lparr>cart_quantity := cart_quantity r + cart_quantity item\<rparr>) = cart_key item"
      using r(2) by (simp add: cart_key_def)
    ultimately show ?thesis by blast
  next
    case False
    then have none: "\<forall>r \<in> set (cart_items db). cart_key r \<noteq> cart_key item" by blast
    show ?thesis
      unfolding AddToCart_new [OF none fresh] by (simp add: cart_key_def)
  qed
  then obtain y where y: "y \<in> set (cart_items (snd (AddToCart db item)))" "cart_key y = cart_key item"
    by blast
  show ?thesis
    using distinct_key_count [OF wf' y(1)] y(2) by simp
qed

lemma AddToCart_twice:
  assumes wf: "cart_wf (cart_items db)" and fresh: "cart_id item = 0"
  shows "snd (AddToCart (snd (AddToCart db (item\<lparr>cart_quantity := q1\<rparr>))) (item\<lparr>cart_quantity := q2\<rparr>))
       = snd (AddToCart db (item\<lparr>cart_quantity := q1 + q2\<rparr>))"
proof -
  let ?i1 = "item\<lparr>cart_quantity := q1\<rparr>"
  let ?i2 = "item\<lparr>cart_quantity := q2\<rparr>"
  let ?i12 = "item\<lparr>cart_quantity := q1 + q2\<rparr>"
  let ?rows = "cart_items db"
  have keys: "cart_key ?i1 = cart_key item" "cart_key ?i2 = cart_key item" "cart_key ?i12 = cart_key item"
    by (simp_all add: cart_key_def)
  have fresh': "cart_id ?i1 = 0" "cart_id ?i2 = 0" "cart_id ?i12 = 0"
    using fresh by simp_all
  let ?db1 = "snd (AddToCart db ?i1)"
  have wf1: "cart_wf (cart_items ?db1)"
    using AddToCart_wf [OF wf fresh'(1)] .
  have ids: "distinct (map cart_id ?rows)"
    using wf unfolding cart_wf_def by blast
  show ?thesis
  proof (cases "\<exists>r \<in> set ?rows. cart_key r = cart_key item")
    case True
    then obtain r where r: "r \<in> set ?rows" and rk: "cart_key r = cart_key item" by blast
    let ?r1 = "r\<lparr>cart_quantity := cart_quantity r + q1\<rparr>"
    let ?f = "\<lambda>x. if x = r then ?r1 else x"
    have db1: "?db1 = db\<lparr>cart_items := map ?f ?rows\<rparr>"
      using AddToCart_existing [OF wf r, of ?i1] rk keys by simp
    have r1_in: "?r1 \<in> set (cart_items ?db1)"
      unfolding db1 using r by (simp add: image_iff)
    have r1k: "cart_key ?r1 = cart_key ?i2"
      using rk keys by (simp add: cart_key_def)
    have step2: "snd (AddToCart ?db1 ?i2)
                 = ?db1\<lparr>cart_items :=
                     map (\<lambda>x. if x = ?r1 then ?r1\<lparr>cart_quantity := cart_quantity ?r1 + cart_quantity ?i2\<rparr> else x)
                         (cart_items ?db1)\<rparr>"
      using AddToCart_existing [OF wf1 r1_in r1k] by simp
    have once: "snd (AddToCart db ?i12)
                = db\<lparr>cart_items := map (\<lambda>x. if x = r then r\<lparr>cart_quantity := cart_quantity r + (q1 + q2)\<rparr> else x) ?rows\<rparr>"
      using AddToCart_existing [OF wf r, of ?i12] rk keys by simp
    have pointwise: "\<And>x. x \<in> set ?rows \<Longrightarrow>
            (if ?f x = ?r1 then ?r1\<lparr>cart_quantity := cart_quantity ?r1 + cart_quantity ?i2\<rparr> else ?f x)
          = (if x = r then r\<lparr>cart_quantity := cart_quantity r + (q1 + q2)\<rparr> else x)"
    proof -
      fix x assume x: "x \<in> set ?rows"
      show "(if ?f x = ?r1 then ?r1\<lparr>cart_quantity := cart_quantity ?r1 + cart_quantity ?i2\<rparr> else ?f x)
          = (if x = r then r\<lparr>cart_quantity := cart_quantity r + (q1 + q2)\<rparr> else x)"
      proof (cases "x = r")
        case True
        then show ?thesis by (simp add: add.assoc)
      next
        case False
        then have "cart_id x \<noteq> cart_id r"
          using ids x r distinct_map_eq [of cart_id ?rows x r] by blast
        then have "x \<noteq> ?r1" by auto
        then show ?thesis using False by simp
      qed
    qed
    have "map (\<lambda>x. if x = ?r1 then ?r1\<lparr>cart_quantity := cart_quantity ?r1 + cart_quantity ?i2\<rparr> else x)
              (map ?f ?rows)
          = map (\<lambda>x. if x = r then r\<lparr>cart_quantity := cart_quantity r + (q1 + q2)\<rparr> else x) ?rows"
      unfolding map_map comp_def by (rule map_cong [OF refl]) (rule pointwise)
    then show ?thesis
      unfolding step2 once unfolding db1 by simp
  next
    case False
    then have none: "\<forall>r \<in> set ?rows. cart_key r \<noteq> cart_key item" by blast
    let ?k = "auto_increment (map cart_id ?rows)"
    let ?r1 = "?i1\<lparr>cart_id := ?k\<rparr>"
    have db1: "?db1 = db\<lparr>cart_items := ?rows @ [?r1]\<rparr>"
      using AddToCart_new [of db ?i1] none keys fresh' by simp
    have r1_in: "?r1 \<in> set (cart_items ?db1)"
      unfolding db1 by simp
    have r1k: "cart_key ?r1 = cart_key ?i2"
      by (simp add: cart_key_def)
    have step2: "snd (AddToCart ?db1 ?i2)
                 = ?db1\<lparr>cart_items :=
                     map (\<lambda>x. if x = ?r1 then ?r1\<lparr>cart_quantity := cart_quantity ?r1 + cart_quantity ?i2\<rparr> else x)
                         (cart_items ?db1)\<rparr>"
      using AddToCart_existing [OF wf1 r1_in r1k] by simp
    have once: "snd (AddToCart db ?i12) = db\<lparr>cart_items := ?rows @ [?i12\<lparr>cart_id := ?k\<rparr>]\<rparr>"
      using AddToCart_new [of db ?i12] none keys fresh' by simp
    have k: "?k \<notin> set (map cart_id ?rows)"
      using auto_increment_bound [of ?k "map cart_id ?rows"] by blast
    have "\<And>x. x \<in> set ?rows \<Longrightarrow> x \<noteq> ?r1"
    proof
      fix x assume "x \<in> set ?rows" "x = ?r1"
      then have "cart_id x = ?k" by simp
      then show False using k \<open>x \<in> set ?rows\<close> by (metis image_eqI set_map)
    qed
    then have same: "map (\<lambda>x. if x = ?r1 then ?r1\<lparr>cart_quantity := cart_quantity ?r1 + cart_quantity ?i2\<rparr> else x) ?rows
                = ?rows"
      by (simp add: map_idI)
    show ?thesis
      unfolding step2 once unfolding db1 using same by simp
  qed
qed

text \<open>
  Claim C6. On a cart table whose keys identify rows and that holds at most one row per
  user and product, adding an item for a user and product that already have a row updates
  that row's quantity to the sum and leaves every other row as it was; when there is no
  such row it appends exactly one row with the item's quantity. Either way the table
  keeps its shape and holds exactly one row for the pair, and adding \<open>q1\<close> and then \<open>q2\<close>
  leaves the database that adding \<open>q1 + q2\<close> once leaves. Quantities are Go \<open>int\<close>s and the
  sum is Go's.
\<close>

theorem AddToCart_upsert:
  assumes wf: "cart_wf (cart_items db)" and fresh: "cart_id item = 0"
  shows "(\<forall>r \<in> set (cart_items db). cart_key r = cart_key item \<longrightarrow>
            AddToCart db item =
              (None, db\<lparr>cart_items :=
                 map (\<lambda>x. if x = r then r\<lparr>cart_quantity := cart_quantity r + cart_quantity item\<rparr> else x)
                     (cart_items db)\<rparr>))
       \<and> ((\<forall>r \<in> set (cart_items db). cart_key r \<noteq> cart_key item) \<longrightarrow>
            AddToCart db item =
              (None, db\<lparr>cart_items :=
                 cart_items db @ [item\<lparr>cart_id := auto_increment (map cart_id (cart_items db))\<rparr>]\<rparr>))
       \<and> cart_wf (cart_items (snd (AddToCart db item)))
       \<and> length (filter (\<lambda>x. cart_key x = cart_key item) (cart_items (snd (AddToCart db item)))) = 1
       \<and> snd (AddToCart (snd (AddToCart db (item\<lparr>cart_quantity := q1\<rparr>))) (item\<lparr>cart_quantity := q2\<rparr>))
           = snd (AddToCart db (item\<lparr>cart_quantity := q1 + q2\<rparr>))"
proof (intro conjI ballI impI)
  fix r assume "r \<in> set (cart_items db)" "cart_key r = cart_key item"
  then show "AddToCart db item =
              (None, db\<lparr>cart_items :=
                 map (\<lambda>x. if x = r then r\<lparr>cart_quantity := cart_quantity r + cart_quantity item\<rparr> else x)
                     (cart_items db)\<rparr>)"
    using wf by (rule AddToCart_existing [rotated])
next
  assume "\<forall>r \<in> set (cart_items db). cart_key r \<noteq> cart_key item"
  then show "AddToCart db item =
              (None, db\<lparr>cart_items :=
                 cart_items db @ [item\<lparr>cart_id := auto_increment (map cart_id (cart_items db))\<rparr>]\<rparr>)"
    using fresh by (rule AddToCart_new)
next
  show "cart_wf (cart_items (snd (AddToCart db item)))"
    using wf fresh by (rule AddToCart_wf)
next
  show "length (filter (\<lambda>x. cart_key x = cart_key item) (cart_items (snd (AddToCart db item)))) = 1"
    using wf fresh by (rule AddToCart_one_row)
next
  show "snd (AddToCart (snd (AddToCart db (item\<lparr>cart_quantity := q1\<rparr>))) (item\<lparr>cart_quantity := q2\<rparr>))
           = snd (AddToCart db (item\<lparr>cart_quantity := q1 + q2\<rparr>))"
    using wf fresh by (rule AddToCart_twice)
qed

theorem AddToCart_upsert_witness:
  "cart_wf [\<lparr>cart_id = 1, cart_user_id = 7, cart_product_id = 4, cart_quantity = 2\<rparr>]
   \<and> cart_items (snd (AddToCart
         \<lparr>products = [], cart_items = [\<lparr>cart_id = 1, cart_user_id = 7, cart_product_id = 4, cart_quantity = 2\<rparr>],
          marketplace_transactions = [], wallets = [], users = [], now = 0\<rparr>
         \<lparr>cart_id = 0, cart_user_id = 7, cart_product_id = 4, cart_quantity = 3\<rparr>))
       = [\<lparr>cart_id = 1, cart_user_id = 7, cart_product_id = 4, cart_quantity = 5\<rparr>]"
  using AddToCart_upsert
    [of "\<lparr>products = [], cart_items = [\<lparr>cart_id = 1, cart_user_id = 7, cart_product_id = 4, cart_quantity = 2\<rparr>],
          marketplace_transactions = [], wallets = [], users = [], now = 0\<rparr>"
        "\<lparr>cart_id = 0, cart_user_id = 7, cart_product_id = 4, cart_quantity = 3\<rparr>" 0 0]
  by (simp add: cart_wf_def cart_key_def)

section \<open>Carts of different users\<close>

lemma filter_gorm_Update:
  assumes "\<And>r. cond r \<Longrightarrow> \<not> P r \<and> \<not> P (f r)"
  shows "filter P (gorm_Update cond f rows) = filter P rows"
  using assms by (induction rows) (auto simp: gorm_Update_def)

lemma filter_gorm_Delete:
  assumes "\<And>r. cond r \<Longrightarrow> \<not> P r"
  shows "filter P (gorm_Delete cond rows) = filter P rows"
  using assms by (induction rows) (auto simp: gorm_Delete_def)

lemma UpdateCartItem_other_user:
  assumes "a \<noteq> b"
  shows "filter (\<lambda>r. cart_user_id r = b) (cart_items (snd (UpdateCartItem db a itemID quantity)))
       = filter (\<lambda>r. cart_user_id r = b) (cart_items db)"
proof -
  have "filter (\<lambda>r. cart_user_id r = b)
          (gorm_Update (\<lambda>r. cart_user_id r = a \<and> cart_id r = itemID)
             (\<lambda>r. r\<lparr>cart_quantity := quantity\<rparr>) (cart_items db))
        = filter (\<lambda>r. cart_user_id r = b) (cart_items db)"
    using assms by (intro filter_gorm_Update) auto
  then show ?thesis by (simp add: UpdateCartItem_def)
qed

lemma RemoveFromCart_other_user:
  assumes "a \<noteq> b"
  shows "filter (\<lambda>r. cart_user_id r = b) (cart_items (snd (RemoveFromCart db a itemID)))
       = filter (\<lambda>r. cart_user_id r = b) (cart_items db)"
proof -
  have "filter (\<lambda>r. cart_user_id r = b)
          (gorm_Delete (\<lambda>r. cart_user_id r = a \<and> cart_id r = itemID) (cart_items db))
        = filter (\<lambda>r. cart_user_id r = b) (cart_items db)"
    using assms by (intro filter_gorm_Delete) auto
  then show ?thesis by (simp add: RemoveFromCart_def)
qed

lemma GetCart_depends_on_own_rows:
  assumes "filter (\<lambda>r. cart_user_id r = b) (cart_items db') = filter (\<lambda>r. cart_user_id r = b) (cart_items db)"
    and "products db' = products db"
  shows "GetCart db' b = GetCart db b"
  using assms by (simp add: GetCart_def)

text \<open>
  Claim C9. For two distinct users \<open>a\<close> and \<open>b\<close>: the cart that \<open>GetCart\<close> returns to \<open>a\<close>
  is exactly the rows of \<open>a\<close>, none of them a row of \<open>b\<close>; and whatever item id \<open>a\<close> passes
  to \<open>UpdateCartItem\<close> or \<open>RemoveFromCart\<close>, the rows of \<open>b\<close> and the cart \<open>b\<close> reads are the
  same before and after.
\<close>

theorem cart_isolation:
  assumes "a \<noteq> b"
  shows "map fst (fst (GetCart db a)) = filter (\<lambda>r. cart_user_id r = a) (cart_items db)
       \<and> (\<forall>r \<in> set (fst (GetCart db a)). cart_user_id (fst r) = a \<and> cart_user_id (fst r) \<noteq> b)
       \<and> filter (\<lambda>r. cart_user_id r = b) (cart_items (snd (UpdateCartItem db a itemID quantity)))
           = filter (\<lambda>r. cart_user_id r = b) (cart_items db)
       \<and> filter (\<lambda>r. cart_user_id r = b) (cart_items (snd (RemoveFromCart db a itemID)))
           = filter (\<lambda>r. cart_user_id r = b) (cart_items db)
       \<and> GetCart (snd (UpdateCartItem db a itemID quantity)) b = GetCart db b
       \<and> GetCart (snd (RemoveFromCart db a itemID)) b = GetCart db b"
proof (intro conjI)
  show "map fst (fst (GetCart db a)) = filter (\<lambda>r. cart_user_id r = a) (cart_items db)"
    by (simp add: GetCart_def comp_def)
  show "\<forall>r \<in> set (fst (GetCart db a)). cart_user_id (fst r) = a \<and> cart_user_id (fst r) \<noteq> b"
    using assms by (auto simp: GetCart_def)
  show "filter (\<lambda>r. cart_user_id r = b) (cart_items (snd (UpdateCartItem db a itemID quantity)))
           = filter (\<lambda>r. cart_user_id r = b) (cart_items db)"
    using assms by (rule UpdateCartItem_other_user)
  show "filter (\<lambda>r. cart_user_id r = b) (cart_items (snd (RemoveFromCart db a itemID)))
           = filter (\<lambda>r. cart_user_id r = b) (cart_items db)"
    using assms by (rule RemoveFromCart_other_user)
  show "GetCart (snd (UpdateCartItem db a itemID quantity)) b = GetCart db b"
    using UpdateCartItem_other_user [OF assms]
    by (intro GetCart_depends_on_own_rows) (simp_all add: UpdateCartItem_def)
  show "GetCart (snd (RemoveFromCart db a itemID)) b = GetCart db b"
    using RemoveFromCart_other_user [OF assms]
    by (intro GetCart_depends_on_own_rows) (simp_all add: RemoveFromCart_def)
qed

theorem cart_isolation_witness:
  "(1::nat) \<noteq> 2
   \<and> cart_items (snd (UpdateCartItem
        \<lparr>products = [],
         cart_items = [\<lparr>cart_id = 1, cart_user_id = 1, cart_product_id = 4, cart_quantity = 2\<rparr>,
                       \<lparr>cart_id = 2, cart_user_id = 2, cart_product_id = 4, cart_quantity = 6\<rparr>],
         marketplace_transactions = [], wallets = [], users = [], now = 0\<rparr> 1 2 9))
      = [\<lparr>cart_id = 1, cart_user_id = 1, cart_product_id = 4, cart_quantity = 2\<rparr>,
         \<lparr>cart_id = 2, cart_user_id = 2, cart_product_id = 4, cart_quantity = 6\<rparr>]
   \<and> fst (GetCart (snd (RemoveFromCart
        \<lparr>products = [],
         cart_items = [\<lparr>cart_id = 1, cart_user_id = 1, cart_product_id = 4, cart_quantity = 2\<rparr>,
                       \<lparr>cart_id = 2, cart_user_id = 2, cart_product_id = 4, cart_quantity = 6\<rparr>],
         marketplace_transactions = [], wallets = [], users = [], now = 0\<rparr> 1 2)) 2)
      = [(\<lparr>cart_id = 2, cart_user_id = 2, cart_product_id = 4, cart_quantity = 6\<rparr>, None)]"
  using cart_isolation [of 1 2
        "\<lparr>products = [],
         cart_items = [\<lparr>cart_id = 1, cart_user_id = 1, cart_product_id = 4, cart_quantity = 2\<rparr>,
                       \<lparr>cart_id = 2, cart_user_id = 2, cart_product_id = 4, cart_quantity = 6\<rparr>],
         marketplace_transactions = [], wallets = [], users = [], now = 0\<rparr>" 2 9]
  by (simp add: UpdateCartItem_def RemoveFromCart_def GetCart_def gorm_Update_def gorm_Delete_def)

section \<open>Paginated listings\<close>

lemma sorted_gorm_Order_desc:
  "sorted_wrt (\<lambda>x y. created y \<le> created x) (gorm_Order_desc created rows)"
proof -
  have "sorted (map created (sort_key created rows))" by (rule sorted_sort_key)
  then have "sorted_wrt (\<lambda>x y. created x \<le> created y) (sort_key created rows)"
    by (simp add: sorted_wrt_map)
  then show ?thesis
    by (simp add: gorm_Order_desc_def sorted_wrt_rev)
qed

lemma set_gorm_Order_desc: "set (gorm_Order_desc created rows) = set rows"
  by (simp add: gorm_Order_desc_def)

lemma go_offset:
  fixes p l :: go_int
  assumes p: "1 \<le> sint p" and l: "0 \<le> sint l" and fits: "(sint p - 1) * sint l < 2 ^ 63"
  shows "sint ((p - 1) * l) = (sint p - 1) * sint l"
proof -
  have "sint p < 2 ^ 63" using sint_lt [of p] by simp
  then have pred: "sint (p - 1) = sint p - 1"
    using p by (simp add: sint_word_ariths signed_take_bit_int_eq_self)
  have nonneg: "0 \<le> (sint p - 1) * sint l" using p l by simp
  have "sint ((p - 1) * l) = signed_take_bit 63 (sint (p - 1) * sint l)"
    using sint_word_mult [of "p - 1" l] by simp
  also have "\<dots> = signed_take_bit 63 ((sint p - 1) * sint l)"
    by (simp only: pred)
  also have "\<dots> = (sint p - 1) * sint l"
    using nonneg fits by (intro signed_take_bit_int_eq_self) simp_all
  finally show ?thesis .
qed

lemma page_rows:
  fixes p l :: go_int
  assumes p: "1 \<le> sint p" and l: "0 \<le> sint l" and fits: "(sint p - 1) * sint l < 2 ^ 63"
  shows "gorm_Limit l (gorm_Offset ((p - 1) * l) rows)
       = take (nat (sint l)) (drop (nat ((sint p - 1) * sint l)) rows)"
proof -
  have off: "sint ((p - 1) * l) = (sint p - 1) * sint l"
    using assms by (rule go_offset)
  have "0 \<le> (sint p - 1) * sint l" using p l by simp
  then have "gorm_Offset ((p - 1) * l) rows = drop (nat ((sint p - 1) * sint l)) rows"
    unfolding gorm_Offset_def off by (cases "(sint p - 1) * sint l = 0") auto
  then show ?thesis
    using l by (simp add: gorm_Limit_def)
qed

lemma GetAll_items:
  "GetAll db params =
     Inr (gorm_Limit (Limit params) (gorm_Offset ((Page params - 1) * Limit params)
            (gorm_Order_desc product_created_at
               (if Status params \<noteq> [] then filter (\<lambda>x. product_status x = Status params) (products db)
                else products db))),
          int (length (if Status params \<noteq> [] then filter (\<lambda>x. product_status x = Status params) (products db)
                       else products db)))"
  by (simp add: GetAll_def Let_def)

lemma page_window:
  "length (take n (drop m rows)) \<le> n"
  "sorted_wrt R rows \<Longrightarrow> sorted_wrt R (take n (drop m rows))"
  "set (take n (drop m rows)) \<subseteq> set rows"
proof -
  show "length (take n (drop m rows)) \<le> n" by simp
  show "sorted_wrt R rows \<Longrightarrow> sorted_wrt R (take n (drop m rows))"
    by (simp add: sorted_wrt_take sorted_wrt_drop)
  show "set (take n (drop m rows)) \<subseteq> set rows"
    by (meson set_take_subset set_drop_subset subset_trans)
qed

text \<open>
  Claim C4, as amended. For a page \<open>p\<close> of at least 1 and a limit \<open>l\<close> of at least 0 whose
  offset \<open>(p - 1) * l\<close> fits Go's 64-bit \<open>int\<close>, the product listing and the ledger listing
  skip exactly \<open>(p - 1) * l\<close> rows of the rows ordered by creation time, latest first, and
  return at most \<open>l\<close> of them in that order; the product listing filtered with status
  "active" returns only products whose status is exactly "active". The count returned
  beside the page is the number of rows before paging.
\<close>

theorem listing_page:
  fixes p l :: go_int
  assumes p: "1 \<le> sint p" and l: "0 \<le> sint l" and fits: "(sint p - 1) * sint l < 2 ^ 63"
  shows "(\<exists>items.
            GetAll db \<lparr>Status = st, Page = p, Limit = l\<rparr>
              = Inr (items, int (length (if st \<noteq> [] then filter (\<lambda>x. product_status x = st) (products db)
                                          else products db)))
          \<and> items = take (nat (sint l)) (drop (nat ((sint p - 1) * sint l))
                       (gorm_Order_desc product_created_at
                          (if st \<noteq> [] then filter (\<lambda>x. product_status x = st) (products db)
                           else products db)))
          \<and> length items \<le> nat (sint l)
          \<and> sorted_wrt (\<lambda>x y. product_created_at y \<le> product_created_at x) items
          \<and> (st = ''active'' \<longrightarrow> (\<forall>x \<in> set items. product_status x = ''active'')))
       \<and> (\<exists>rows.
            Service_GetTransactions l p db = (rows, int (length (transaction_rows db)), None)
          \<and> rows = take (nat (sint l)) (drop (nat ((sint p - 1) * sint l))
                      (gorm_Order_desc (\<lambda>r. mt_created_at (mtd_transaction r)) (transaction_rows db)))
          \<and> length rows \<le> nat (sint l)
          \<and> sorted_wrt (\<lambda>x y. mt_created_at (mtd_transaction y) \<le> mt_created_at (mtd_transaction x)) rows)"
proof (intro conjI)
  let ?query = "if st \<noteq> [] then filter (\<lambda>x. product_status x = st) (products db) else products db"
  let ?items = "take (nat (sint l)) (drop (nat ((sint p - 1) * sint l))
                  (gorm_Order_desc product_created_at ?query))"
  have get: "GetAll db \<lparr>Status = st, Page = p, Limit = l\<rparr> = Inr (?items, int (length ?query))"
    unfolding GetAll_items by (simp add: page_rows [OF p l fits])
  have len: "length ?items \<le> nat (sint l)" by (rule page_window(1))
  have ord: "sorted_wrt (\<lambda>x y. product_created_at y \<le> product_created_at x) ?items"
    by (intro page_window(2) sorted_gorm_Order_desc)
  have act: "st = ''active'' \<longrightarrow> (\<forall>x \<in> set ?items. product_status x = ''active'')"
  proof (intro impI ballI)
    fix x assume st: "st = ''active''" and x: "x \<in> set ?items"
    have "set ?items \<subseteq> set (gorm_Order_desc product_created_at ?query)"
      by (rule page_window(3))
    then have "x \<in> set ?query" using x by (auto simp: set_gorm_Order_desc)
    then show "product_status x = ''active''" using st by simp
  qed
  show "\<exists>items.
            GetAll db \<lparr>Status = st, Page = p, Limit = l\<rparr> = Inr (items, int (length ?query))
          \<and> items = ?items
          \<and> length items \<le> nat (sint l)
          \<and> sorted_wrt (\<lambda>x y. product_created_at y \<le> product_created_at x) items
          \<and> (st = ''active'' \<longrightarrow> (\<forall>x \<in> set items. product_status x = ''active''))"
    using get len ord act by blast
next
  let ?created = "\<lambda>r. mt_created_at (mtd_transaction r)"
  let ?rows = "take (nat (sint l)) (drop (nat ((sint p - 1) * sint l))
                 (gorm_Order_desc ?created (transaction_rows db)))"
  have get: "Service_GetTransactions l p db = (?rows, int (length (transaction_rows db)), None)"
    unfolding Service_GetTransactions_def GetAllTransactions_def
    by (simp add: Let_def page_rows [OF p l fits])
  have len: "length ?rows \<le> nat (sint l)" by (rule page_window(1))
  have ord: "sorted_wrt (\<lambda>x y. ?created y \<le> ?created x) ?rows"
    by (intro page_window(2) sorted_gorm_Order_desc)
  show "\<exists>rows.
            Service_GetTransactions l p db = (rows, int (length (transaction_rows db)), None)
          \<and> rows = ?rows
          \<and> length rows \<le> nat (sint l)
          \<and> sorted_wrt (\<lambda>x y. ?created y \<le> ?created x) rows"
    using get len ord by blast
qed

theorem listing_page_witness:
  "1 \<le> sint (2 :: go_int) \<and> 0 \<le> sint (1 :: go_int) \<and> (sint (2 :: go_int) - 1) * sint (1 :: go_int) < 2 ^ 63
   \<and> GetAll
        \<lparr>products =
           [\<lparr>product_id = 1, product_name = ''pen'', product_description = [], product_price = 30,
             product_stock = 5, product_status = ''active'', product_created_at = 10, product_updated_at = 10\<rparr>,
            \<lparr>product_id = 2, product_name = ''mug'', product_description = [], product_price = 80,
             product_stock = 1, product_status = ''inactive'', product_created_at = 20, product_updated_at = 20\<rparr>,
            \<lparr>product_id = 3, product_name = ''cap'', product_description = [], product_price = 50,
             product_stock = 2, product_status = ''active'', product_created_at = 30, product_updated_at = 30\<rparr>],
         cart_items = [], marketplace_transactions = [], wallets = [], users = [], now = 40\<rparr>
        \<lparr>Status = ''active'', Page = 2, Limit = 1\<rparr>
      = Inr ([\<lparr>product_id = 1, product_name = ''pen'', product_description = [], product_price = 30,
               product_stock = 5, product_status = ''active'', product_created_at = 10, product_updated_at = 10\<rparr>],
             2)"
  using listing_page [of 2 1
        "\<lparr>products =
           [\<lparr>product_id = 1, product_name = ''pen'', product_description = [], product_price = 30,
             product_stock = 5, product_status = ''active'', product_created_at = 10, product_updated_at = 10\<rparr>,
            \<lparr>product_id = 2, product_name = ''mug'', product_description = [], product_price = 80,
             product_stock = 1, product_status = ''inactive'', product_created_at = 20, product_updated_at = 20\<rparr>,
            \<lparr>product_id = 3, product_name = ''cap'', product_description = [], product_price = 50,
             product_stock = 2, product_status = ''active'', product_created_at = 30, product_updated_at = 30\<rparr>],
         cart_items = [], marketplace_transactions = [], wallets = [], users = [], now = 40\<rparr>"
        "''active''"]
  by (simp add: gorm_Order_desc_def)

text \<open>
  Claim C4 as stated fails for a limit below zero, which cancels the LIMIT clause: with
  limit -1 the listing returns both rows of the table.
\<close>

theorem listing_negative_limit:
  "GetAll
     \<lparr>products =
        [\<lparr>product_id = 1, product_name = ''pen'', product_description = [], product_price = 30,
          product_stock = 5, product_status = ''active'', product_created_at = 10, product_updated_at = 10\<rparr>,
         \<lparr>product_id = 3, product_name = ''cap'', product_description = [], product_price = 50,
          product_stock = 2, product_status = ''active'', product_created_at = 30, product_updated_at = 30\<rparr>],
      cart_items = [], marketplace_transactions = [], wallets = [], users = [], now = 40\<rparr>
     \<lparr>Status = [], Page = 1, Limit = - 1\<rparr>
   = Inr ([\<lparr>product_id = 3, product_name = ''cap'', product_description = [], product_price = 50,
            product_stock = 2, product_status = ''active'', product_created_at = 30, product_updated_at = 30\<rparr>,
           \<lparr>product_id = 1, product_name = ''pen'', product_description = [], product_price = 30,
            product_stock = 5, product_status = ''active'', product_created_at = 10, product_updated_at = 10\<rparr>],
          2)
   \<and> sint (- 1 :: go_int) < 2"
  by (simp add: GetAll_def gorm_Limit_def gorm_Offset_def gorm_Order_desc_def)

section \<open>Soft delete\<close>

lemma set_gorm_Limit: "set (gorm_Limit n rows) \<subseteq> set rows"
  by (simp add: gorm_Limit_def set_take_subset)

lemma set_gorm_Offset: "set (gorm_Offset n rows) \<subseteq> set rows"
  by (simp add: gorm_Offset_def set_drop_subset)

lemma GetAll_subset:
  assumes "GetAll db params = Inr (items, n)" and "x \<in> set items"
  shows "x \<in> set (products db) \<and> (Status params \<noteq> [] \<longrightarrow> product_status x = Status params)"
proof -
  let ?query = "if Status params \<noteq> [] then filter (\<lambda>x. product_status x = Status params) (products db)
                else products db"
  have "items = gorm_Limit (Limit params) (gorm_Offset ((Page params - 1) * Limit params)
                  (gorm_Order_desc product_created_at ?query))"
    using assms(1) unfolding GetAll_items by simp
  then have "set items \<subseteq> set ?query"
    using set_gorm_Limit set_gorm_Offset set_gorm_Order_desc by (metis subset_trans)
  then have "x \<in> set ?query" using assms(2) by blast
  then show ?thesis by (auto split: if_splits)
qed

lemma FindByID_unique:
  assumes "distinct (map product_id rows)" and "p \<in> set rows"
  shows "FindByID (db\<lparr>products := rows\<rparr>) (product_id p) = Inr p"
proof -
  have "\<forall>x \<in> set rows. product_id x = product_id p \<longrightarrow> x = p"
    using assms by (blast intro: distinct_map_eq)
  then have "gorm_First product_id (\<lambda>x. product_id x = product_id p) rows = Inr p"
    using assms(2) by (intro gorm_First_unique) simp_all
  then show ?thesis by (simp add: FindByID_def)
qed

lemma FindByID_absent:
  assumes "\<forall>p \<in> set (products db). product_id p \<noteq> productID"
  shows "FindByID db productID = Inl (ErrNew ''product not found'')"
proof -
  have "gorm_First product_id (\<lambda>p. product_id p = productID) (products db) = Inl ErrRecordNotFound"
    using assms by (intro gorm_First_none) simp
  then show ?thesis by (simp add: FindByID_def)
qed

lemma Delete_rows:
  assumes ids: "distinct (map product_id (products db))" and p: "p \<in> set (products db)"
  shows "Delete db (product_id p) =
           (None, db\<lparr>products :=
              map (\<lambda>x. if x = p then p\<lparr>product_status := ''inactive'', product_updated_at := now db\<rparr> else x)
                  (products db)\<rparr>)"
proof -
  have "gorm_Update (\<lambda>x. product_id x = product_id p)
          (\<lambda>x. x\<lparr>product_status := ''inactive'', product_updated_at := now db\<rparr>) (products db)
        = map (\<lambda>x. if x = p then p\<lparr>product_status := ''inactive'', product_updated_at := now db\<rparr> else x)
            (products db)"
    unfolding gorm_Update_def
  proof (rule map_cong [OF refl])
    fix x assume x: "x \<in> set (products db)"
    have "product_id x = product_id p \<longleftrightarrow> x = p"
      using ids p x by (blast intro: distinct_map_eq)
    then show "(if product_id x = product_id p
                then x\<lparr>product_status := ''inactive'', product_updated_at := now db\<rparr> else x)
             = (if x = p then p\<lparr>product_status := ''inactive'', product_updated_at := now db\<rparr> else x)"
      by auto
  qed
  then show ?thesis by (simp add: Delete_def)
qed

text \<open>
  Claim C7, as amended. For a product of a table with unique ids, \<open>Delete\<close> sets its status
  to "inactive" and its updated-at time to the current time, and changes no other field of
  it, no other product and no other table; afterwards no listing filtered to status
  "active" holds a product with that id, and \<open>FindByID\<close> still returns the product.
\<close>

theorem Delete_sets_inactive:
  assumes ids: "distinct (map product_id (products db))" and p: "p \<in> set (products db)"
  shows "Delete db (product_id p) =
           (None, db\<lparr>products :=
              map (\<lambda>x. if x = p then p\<lparr>product_status := ''inactive'', product_updated_at := now db\<rparr> else x)
                  (products db)\<rparr>)
       \<and> (\<forall>params items n x.
             Status params = ''active'' \<and> GetAll (snd (Delete db (product_id p))) params = Inr (items, n)
               \<and> x \<in> set items
             \<longrightarrow> product_id x \<noteq> product_id p)
       \<and> FindByID (snd (Delete db (product_id p))) (product_id p)
           = Inr (p\<lparr>product_status := ''inactive'', product_updated_at := now db\<rparr>)"
proof (intro conjI allI impI)
  let ?p' = "p\<lparr>product_status := ''inactive'', product_updated_at := now db\<rparr>"
  let ?rows = "map (\<lambda>x. if x = p then ?p' else x) (products db)"
  show del: "Delete db (product_id p) = (None, db\<lparr>products := ?rows\<rparr>)"
    using ids p by (rule Delete_rows)
  have ids': "map product_id ?rows = map product_id (products db)"
    by (induction "products db") auto
  have dist: "distinct (map product_id ?rows)"
    using ids by (simp only: ids')
  have p': "?p' \<in> set ?rows"
    using p by (simp add: image_iff)
  have find: "FindByID (db\<lparr>products := ?rows\<rparr>) (product_id ?p') = Inr ?p'"
    using dist p' by (rule FindByID_unique)
  show "FindByID (snd (Delete db (product_id p))) (product_id p) = Inr ?p'"
    using find unfolding del by simp
  fix params items n x
  assume a: "Status params = ''active'' \<and> GetAll (snd (Delete db (product_id p))) params = Inr (items, n)
               \<and> x \<in> set items"
  then have "x \<in> set ?rows \<and> product_status x = ''active''"
    using GetAll_subset [of "snd (Delete db (product_id p))" params items n x] unfolding del by simp
  then have x: "x \<in> set ?rows" "product_status x = ''active''" by simp_all
  show "product_id x \<noteq> product_id p"
  proof
    assume "product_id x = product_id p"
    then have "product_id x = product_id ?p'" by simp
    then have "x = ?p'"
      using dist x(1) p' distinct_map_eq [of product_id ?rows x ?p'] by blast
    then show False using x(2) by simp
  qed
qed

text \<open>
  Claim C7 as stated fails on the updated-at column: the row after \<open>Delete\<close> is not the
  row before with only its status changed.
\<close>

theorem Delete_touches_updated_at:
  "products (snd (Delete
     \<lparr>products =
        [\<lparr>product_id = 1, product_name = ''pen'', product_description = [], product_price = 30,
          product_stock = 5, product_status = ''active'', product_created_at = 10, product_updated_at = 10\<rparr>],
      cart_items = [], marketplace_transactions = [], wallets = [], users = [], now = 40\<rparr> 1))
   = [\<lparr>product_id = 1, product_name = ''pen'', product_description = [], product_price = 30,
        product_stock = 5, product_status = ''inactive'', product_created_at = 10, product_updated_at = 40\<rparr>]
   \<and> products (snd (Delete
     \<lparr>products =
        [\<lparr>product_id = 1, product_name = ''pen'', product_description = [], product_price = 30,
          product_stock = 5, product_status = ''active'', product_created_at = 10, product_updated_at = 10\<rparr>],
      cart_items = [], marketplace_transactions = [], wallets = [], users = [], now = 40\<rparr> 1))
   \<noteq> [\<lparr>product_id = 1, product_name = ''pen'', product_description = [], product_price = 30,
        product_stock = 5, product_status = ''inactive'', product_created_at = 10, product_updated_at = 10\<rparr>]"
  by (simp add: Delete_def gorm_Update_def)

theorem Delete_sets_inactive_witness:
  "distinct (map product_id
      [\<lparr>product_id = 1, product_name = ''pen'', product_description = [], product_price = 30,
        product_stock = 5, product_status = ''active'', product_created_at = 10, product_updated_at = 10\<rparr>,
       \<lparr>product_id = 3, product_name = ''cap'', product_description = [], product_price = 50,
        product_stock = 2, product_status = ''active'', product_created_at = 30, product_updated_at = 30\<rparr>])
   \<and> FindByID (snd (Delete
        \<lparr>products =
           [\<lparr>product_id = 1, product_name = ''pen'', product_description = [], product_price = 30,
             product_stock = 5, product_status = ''active'', product_created_at = 10, product_updated_at = 10\<rparr>,
            \<lparr>product_id = 3, product_name = ''cap'', product_description = [], product_price = 50,
             product_stock = 2, product_status = ''active'', product_created_at = 30, product_updated_at = 30\<rparr>],
         cart_items = [], marketplace_transactions = [], wallets = [], users = [], now = 40\<rparr> 1)) 1
      = Inr \<lparr>product_id = 1, product_name = ''pen'', product_description = [], product_price = 30,
             product_stock = 5, product_status = ''inactive'', product_created_at = 10, product_updated_at = 40\<rparr>"
  using Delete_sets_inactive
    [of "\<lparr>products =
           [\<lparr>product_id = 1, product_name = ''pen'', product_description = [], product_price = 30,
             product_stock = 5, product_status = ''active'', product_created_at = 10, product_updated_at = 10\<rparr>,
            \<lparr>product_id = 3, product_name = ''cap'', product_description = [], product_price = 50,
             product_stock = 2, product_status = ''active'', product_created_at = 30, product_updated_at = 30\<rparr>],
         cart_items = [], marketplace_transactions = [], wallets = [], users = [], now = 40\<rparr>"
        "\<lparr>product_id = 1, product_name = ''pen'', product_description = [], product_price = 30,
          product_stock = 5, product_status = ''active'', product_created_at = 10, product_updated_at = 10\<rparr>"]
  by (simp add: Delete_def gorm_Update_def)

section \<open>The listing a student sees\<close>

text \<open>
  Claim C3. When the role set on the request is the string "mahasiswa", the product
  listing handler asks the repository for status "active" whatever the query string says,
  and every product in the response has status "active". For any other role the listing is
  the repository's for the status given in the query string (none when it is empty). The
  service between the two hands the parameters on, as the spec describes it.
\<close>

theorem student_listing_active_only:
  "(Get c ''role'' = AnyString ''mahasiswa'' \<longrightarrow>
      (\<exists>r. Handler_GetAll Service_GetAllProducts c w
               = (SuccessResponse 200 ''Products retrieved successfully'' r, w)
           \<and> GetAll (world_db w)
                 \<lparr>Status = ''active'',
                  Page = fst (Atoi (DefaultQuery c ''page'' ''1'')),
                  Limit = fst (Atoi (DefaultQuery c ''limit'' ''20''))\<rparr>
               = Inr (list_products r, list_total r)
           \<and> (\<forall>x \<in> set (list_products r). product_status x = ''active'')))
   \<and> (Get c ''role'' \<noteq> AnyString ''mahasiswa'' \<longrightarrow>
      (\<exists>r. Handler_GetAll Service_GetAllProducts c w
               = (SuccessResponse 200 ''Products retrieved successfully'' r, w)
           \<and> GetAll (world_db w)
                 \<lparr>Status = Query c ''status'',
                  Page = fst (Atoi (DefaultQuery c ''page'' ''1'')),
                  Limit = fst (Atoi (DefaultQuery c ''limit'' ''20''))\<rparr>
               = Inr (list_products r, list_total r)))"
proof (intro conjI impI)
  let ?page = "fst (Atoi (DefaultQuery c ''page'' ''1''))"
  let ?limit = "fst (Atoi (DefaultQuery c ''limit'' ''20''))"
  have shape: "\<And>st. \<exists>items n. GetAll (world_db w) \<lparr>Status = st, Page = ?page, Limit = ?limit\<rparr> = Inr (items, n)"
    by (simp add: GetAll_items)
  {
    assume role: "Get c ''role'' = AnyString ''mahasiswa''"
    obtain items n where get:
      "GetAll (world_db w) \<lparr>Status = ''active'', Page = ?page, Limit = ?limit\<rparr> = Inr (items, n)"
      using shape by blast
    let ?r = "\<lparr>list_products = items, list_total = n, list_page = ?page, list_limit = ?limit\<rparr>"
    have "Handler_GetAll Service_GetAllProducts c w
            = (SuccessResponse 200 ''Products retrieved successfully'' ?r, w)"
      using role get by (simp add: Handler_GetAll_def Service_GetAllProducts_def Let_def)
    moreover have "\<forall>x \<in> set items. product_status x = ''active''"
      using GetAll_subset [OF get] by simp
    ultimately show "\<exists>r. Handler_GetAll Service_GetAllProducts c w
               = (SuccessResponse 200 ''Products retrieved successfully'' r, w)
           \<and> GetAll (world_db w) \<lparr>Status = ''active'', Page = ?page, Limit = ?limit\<rparr>
               = Inr (list_products r, list_total r)
           \<and> (\<forall>x \<in> set (list_products r). product_status x = ''active'')"
      using get by (intro exI [of _ ?r]) simp
  }
  {
    assume role: "Get c ''role'' \<noteq> AnyString ''mahasiswa''"
    obtain items n where get:
      "GetAll (world_db w) \<lparr>Status = Query c ''status'', Page = ?page, Limit = ?limit\<rparr> = Inr (items, n)"
      using shape by blast
    let ?r = "\<lparr>list_products = items, list_total = n, list_page = ?page, list_limit = ?limit\<rparr>"
    have "Handler_GetAll Service_GetAllProducts c w
            = (SuccessResponse 200 ''Products retrieved successfully'' ?r, w)"
      using role get by (simp add: Handler_GetAll_def Service_GetAllProducts_def Let_def)
    then show "\<exists>r. Handler_GetAll Service_GetAllProducts c w
               = (SuccessResponse 200 ''Products retrieved successfully'' r, w)
           \<and> GetAll (world_db w) \<lparr>Status = Query c ''status'', Page = ?page, Limit = ?limit\<rparr>
               = Inr (list_products r, list_total r)"
      using get by (intro exI [of _ ?r]) simp
  }
qed

theorem student_listing_active_only_witness:
  "Get \<lparr>Params = (\<lambda>k. []),
        QueryValues = (\<lambda>k. if k = ''status'' then Some ''inactive'' else None),
        Keys = (\<lambda>k. if k = ''role'' then Some (AnyString ''mahasiswa'') else None),
        ClientIP = ''10.0.0.1'', Request_UserAgent = ''curl'', ShouldBindJSON = Inr ()\<rparr> ''role''
     = AnyString ''mahasiswa''
   \<and> fst (Handler_GetAll Service_GetAllProducts
        \<lparr>Params = (\<lambda>k. []),
         QueryValues = (\<lambda>k. if k = ''status'' then Some ''inactive'' else None),
         Keys = (\<lambda>k. if k = ''role'' then Some (AnyString ''mahasiswa'') else None),
         ClientIP = ''10.0.0.1'', Request_UserAgent = ''curl'', ShouldBindJSON = Inr ()\<rparr>
        \<lparr>world_db =
           \<lparr>products =
              [\<lparr>product_id = 1, product_name = ''pen'', product_description = [], product_price = 30,
                product_stock = 5, product_status = ''active'', product_created_at = 10, product_updated_at = 10\<rparr>,
               \<lparr>product_id = 2, product_name = ''mug'', product_description = [], product_price = 80,
                product_stock = 1, product_status = ''inactive'', product_created_at = 20, product_updated_at = 20\<rparr>],
            cart_items = [], marketplace_transactions = [], wallets = [], users = [], now = 40\<rparr>,
         world_audit = []\<rparr>)
     = SuccessResponse 200 ''Products retrieved successfully''
         \<lparr>list_products =
            [\<lparr>product_id = 1, product_name = ''pen'', product_description = [], product_price = 30,
              product_stock = 5, product_status = ''active'', product_created_at = 10, product_updated_at = 10\<rparr>],
          list_total = 1, list_page = 1, list_limit = 20\<rparr>"
  using student_listing_active_only
    [of "\<lparr>Params = (\<lambda>k. []),
         QueryValues = (\<lambda>k. if k = ''status'' then Some ''inactive'' else None),
         Keys = (\<lambda>k. if k = ''role'' then Some (AnyString ''mahasiswa'') else None),
         ClientIP = ''10.0.0.1'', Request_UserAgent = ''curl'', ShouldBindJSON = Inr ()\<rparr>"
        "\<lparr>world_db =
           \<lparr>products =
              [\<lparr>product_id = 1, product_name = ''pen'', product_description = [], product_price = 30,
                product_stock = 5, product_status = ''active'', product_created_at = 10, product_updated_at = 10\<rparr>,
               \<lparr>product_id = 2, product_name = ''mug'', product_description = [], product_price = 80,
                product_stock = 1, product_status = ''inactive'', product_created_at = 20, product_updated_at = 20\<rparr>],
            cart_items = [], marketplace_transactions = [], wallets = [], users = [], now = 40\<rparr>,
         world_audit = []\<rparr>"]
  by (simp add: Get_def Query_def DefaultQuery_def Atoi_def ParseInt_def ParseUint_def is_digit_def
        digit_value_def GetAll_def gorm_Limit_def gorm_Offset_def gorm_Order_desc_def
        Handler_GetAll_def Service_GetAllProducts_def Let_def)

section \<open>Audit entries\<close>

lemma Handler_Create_audit:
  assumes "fst (Handler_Create svc c w) = SuccessResponse code msg product"
  shows "world_audit (snd (Handler_Create svc c w)) =
           world_audit w @
             [\<lparr>UserID = GetUint c ''user_id'', Action = ''CREATE_PRODUCT'', Entity = ''PRODUCT'',
               EntityID = product_id product,
               Details = ''Admin created new product: '' @ product_name product,
               IPAddress = ClientIP c, UserAgent = Request_UserAgent c\<rparr>]"
  using assms
  by (auto simp: Handler_Create_def Let_def LogActivity_def split: sum.splits prod.splits)

lemma Handler_Update_audit:
  assumes "fst (Handler_Update svc c w) = SuccessResponse code msg product"
  shows "world_audit (snd (Handler_Update svc c w)) =
           world_audit w @
             [\<lparr>UserID = GetUint c ''user_id'', Action = ''UPDATE_PRODUCT'', Entity = ''PRODUCT'',
               EntityID = product_id product,
               Details = ''Admin updated product: '' @ product_name product,
               IPAddress = ClientIP c, UserAgent = Request_UserAgent c\<rparr>]"
  using assms
  by (auto simp: Handler_Update_def Let_def LogActivity_def split: sum.splits prod.splits option.splits)

lemma Handler_Delete_audit:
  assumes "fst (Handler_Delete svc c w) = SuccessResponse code msg d"
  shows "world_audit (snd (Handler_Delete svc c w)) =
           world_audit w @
             [\<lparr>UserID = GetUint c ''user_id'', Action = ''DELETE_PRODUCT'', Entity = ''PRODUCT'',
               EntityID = fst (ParseUint (Params c ''id'') 32),
               Details = ''Admin deleted product ID: '' @ FormatUint (fst (ParseUint (Params c ''id'') 32)),
               IPAddress = ClientIP c, UserAgent = Request_UserAgent c\<rparr>]"
  using assms
  by (auto simp: Handler_Delete_def Let_def LogActivity_def split: sum.splits prod.splits option.splits)

lemma Handler_Purchase_audit:
  assumes "fst (Handler_Purchase svc c w) = SuccessResponse code msg d"
  shows "\<exists>req. ShouldBindJSON c = Inr req \<and>
           world_audit (snd (Handler_Purchase svc c w)) =
             world_audit w @
               [\<lparr>UserID = GetUint c ''user_id'', Action = ''PURCHASE_PRODUCT'', Entity = ''PRODUCT'',
                 EntityID = purchase_product_id req,
                 Details = ''User purchased units of product ID '' @ FormatUint (purchase_product_id req),
                 IPAddress = ClientIP c, UserAgent = Request_UserAgent c\<rparr>]"
  using assms
  by (auto simp: Handler_Purchase_def Let_def LogActivity_def split: sum.splits prod.splits option.splits)

lemma Handler_Checkout_audit:
  assumes "fst (Handler_Checkout svc c w) = SuccessResponse code msg d"
  shows "world_audit (snd (Handler_Checkout svc c w)) =
           world_audit w @
             [\<lparr>UserID = GetUint c ''user_id'', Action = ''CART_CHECKOUT'', Entity = ''WALLET'',
               EntityID = GetUint c ''user_id'',
               Details = ''User completed checkout from cart'',
               IPAddress = ClientIP c, UserAgent = Request_UserAgent c\<rparr>]"
  using assms
  by (auto simp: Handler_Checkout_def Let_def LogActivity_def split: sum.splits prod.splits option.splits)

lemma cart_handlers_no_audit:
  "world_audit (snd (Handler_AddToCart svc1 c1 w)) = world_audit w"
  "world_audit (snd (Handler_UpdateCartItem svc2 c2 w)) = world_audit w"
  "world_audit (snd (Handler_RemoveFromCart svc3 c3 w)) = world_audit w"
  by (auto simp: Handler_AddToCart_def Handler_UpdateCartItem_def Handler_RemoveFromCart_def Let_def
           split: sum.splits prod.splits option.splits)

lemma failure_no_audit:
  "(\<forall>code msg d. fst (Handler_Create svc1 c1 w) \<noteq> SuccessResponse code msg d)
     \<Longrightarrow> world_audit (snd (Handler_Create svc1 c1 w)) = world_audit w"
  "(\<forall>code msg d. fst (Handler_Update svc2 c2 w) \<noteq> SuccessResponse code msg d)
     \<Longrightarrow> world_audit (snd (Handler_Update svc2 c2 w)) = world_audit w"
  "(\<forall>code msg d. fst (Handler_Delete svc3 c3 w) \<noteq> SuccessResponse code msg d)
     \<Longrightarrow> world_audit (snd (Handler_Delete svc3 c3 w)) = world_audit w"
  "(\<forall>code msg d. fst (Handler_Purchase svc4 c4 w) \<noteq> SuccessResponse code msg d)
     \<Longrightarrow> world_audit (snd (Handler_Purchase svc4 c4 w)) = world_audit w"
  "(\<forall>code msg d. fst (Handler_Checkout svc5 c5 w) \<noteq> SuccessResponse code msg d)
     \<Longrightarrow> world_audit (snd (Handler_Checkout svc5 c5 w)) = world_audit w"
  by (auto simp: Handler_Create_def Handler_Update_def Handler_Delete_def Handler_Purchase_def
                 Handler_Checkout_def Let_def
           split: sum.splits prod.splits option.splits)

text \<open>
  Claim C5, as amended. Whatever the service does, a successful response of product
  create, update or delete, of purchase, and of cart checkout comes with exactly one new
  audit entry, holding the actor id, the action name, the entity type and id, the detail
  text, the caller's address and the user agent. The handlers of cart add, update and
  remove never write an audit entry.
\<close>

theorem audit_on_success:
  "(\<forall>code msg product.
      fst (Handler_Create svc_create c_create w) = SuccessResponse code msg product \<longrightarrow>
      world_audit (snd (Handler_Create svc_create c_create w)) =
        world_audit w @
          [\<lparr>UserID = GetUint c_create ''user_id'', Action = ''CREATE_PRODUCT'', Entity = ''PRODUCT'',
            EntityID = product_id product,
            Details = ''Admin created new product: '' @ product_name product,
            IPAddress = ClientIP c_create, UserAgent = Request_UserAgent c_create\<rparr>])
   \<and> (\<forall>code msg product.
      fst (Handler_Update svc_update c_update w) = SuccessResponse code msg product \<longrightarrow>
      world_audit (snd (Handler_Update svc_update c_update w)) =
        world_audit w @
          [\<lparr>UserID = GetUint c_update ''user_id'', Action = ''UPDATE_PRODUCT'', Entity = ''PRODUCT'',
            EntityID = product_id product,
            Details = ''Admin updated product: '' @ product_name product,
            IPAddress = ClientIP c_update, UserAgent = Request_UserAgent c_update\<rparr>])
   \<and> (\<forall>code msg d.
      fst (Handler_Delete svc_delete c_delete w) = SuccessResponse code msg d \<longrightarrow>
      world_audit (snd (Handler_Delete svc_delete c_delete w)) =
        world_audit w @
          [\<lparr>UserID = GetUint c_delete ''user_id'', Action = ''DELETE_PRODUCT'', Entity = ''PRODUCT'',
            EntityID = fst (ParseUint (Params c_delete ''id'') 32),
            Details = ''Admin deleted product ID: ''
                        @ FormatUint (fst (ParseUint (Params c_delete ''id'') 32)),
            IPAddress = ClientIP c_delete, UserAgent = Request_UserAgent c_delete\<rparr>])
   \<and> (\<forall>code msg d.
      fst (Handler_Purchase svc_purchase c_purchase w) = SuccessResponse code msg d \<longrightarrow>
      (\<exists>req. ShouldBindJSON c_purchase = Inr req \<and>
         world_audit (snd (Handler_Purchase svc_purchase c_purchase w)) =
           world_audit w @
             [\<lparr>UserID = GetUint c_purchase ''user_id'', Action = ''PURCHASE_PRODUCT'',
               Entity = ''PRODUCT'', EntityID = purchase_product_id req,
               Details = ''User purchased units of product ID ''
                           @ FormatUint (purchase_product_id req),
               IPAddress = ClientIP c_purchase, UserAgent = Request_UserAgent c_purchase\<rparr>]))
   \<and> (\<forall>code msg d.
      fst (Handler_Checkout svc_checkout c_checkout w) = SuccessResponse code msg d \<longrightarrow>
      world_audit (snd (Handler_Checkout svc_checkout c_checkout w)) =
        world_audit w @
          [\<lparr>UserID = GetUint c_checkout ''user_id'', Action = ''CART_CHECKOUT'', Entity = ''WALLET'',
            EntityID = GetUint c_checkout ''user_id'',
            Details = ''User completed checkout from cart'',
            IPAddress = ClientIP c_checkout, UserAgent = Request_UserAgent c_checkout\<rparr>])
   \<and> world_audit (snd (Handler_AddToCart svc_add c_add w)) = world_audit w
   \<and> world_audit (snd (Handler_UpdateCartItem svc_set c_set w)) = world_audit w
   \<and> world_audit (snd (Handler_RemoveFromCart svc_remove c_remove w)) = world_audit w"
proof (intro conjI allI impI)
  fix code msg product
  assume "fst (Handler_Create svc_create c_create w) = SuccessResponse code msg product"
  then show "world_audit (snd (Handler_Create svc_create c_create w)) =
        world_audit w @
          [\<lparr>UserID = GetUint c_create ''user_id'', Action = ''CREATE_PRODUCT'', Entity = ''PRODUCT'',
            EntityID = product_id product,
            Details = ''Admin created new product: '' @ product_name product,
            IPAddress = ClientIP c_create, UserAgent = Request_UserAgent c_create\<rparr>]"
    by (rule Handler_Create_audit)
next
  fix code msg product
  assume "fst (Handler_Update svc_update c_update w) = SuccessResponse code msg product"
  then show "world_audit (snd (Handler_Update svc_update c_update w)) =
        world_audit w @
          [\<lparr>UserID = GetUint c_update ''user_id'', Action = ''UPDATE_PRODUCT'', Entity = ''PRODUCT'',
            EntityID = product_id product,
            Details = ''Admin updated product: '' @ product_name product,
            IPAddress = ClientIP c_update, UserAgent = Request_UserAgent c_update\<rparr>]"
    by (rule Handler_Update_audit)
next
  fix code msg and d :: unit
  assume "fst (Handler_Delete svc_delete c_delete w) = SuccessResponse code msg d"
  then show "world_audit (snd (Handler_Delete svc_delete c_delete w)) =
        world_audit w @
          [\<lparr>UserID = GetUint c_delete ''user_id'', Action = ''DELETE_PRODUCT'', Entity = ''PRODUCT'',
            EntityID = fst (ParseUint (Params c_delete ''id'') 32),
            Details = ''Admin deleted product ID: ''
                        @ FormatUint (fst (ParseUint (Params c_delete ''id'') 32)),
            IPAddress = ClientIP c_delete, UserAgent = Request_UserAgent c_delete\<rparr>]"
    by (rule Handler_Delete_audit)
next
  fix code msg and d :: unit
  assume "fst (Handler_Purchase svc_purchase c_purchase w) = SuccessResponse code msg d"
  then show "\<exists>req. ShouldBindJSON c_purchase = Inr req \<and>
         world_audit (snd (Handler_Purchase svc_purchase c_purchase w)) =
           world_audit w @
             [\<lparr>UserID = GetUint c_purchase ''user_id'', Action = ''PURCHASE_PRODUCT'',
               Entity = ''PRODUCT'', EntityID = purchase_product_id req,
               Details = ''User purchased units of product ID ''
                           @ FormatUint (purchase_product_id req),
               IPAddress = ClientIP c_purchase, UserAgent = Request_UserAgent c_purchase\<rparr>]"
    by (rule Handler_Purchase_audit)
next
  fix code msg and d :: unit
  assume "fst (Handler_Checkout svc_checkout c_checkout w) = SuccessResponse code msg d"
  then show "world_audit (snd (Handler_Checkout svc_checkout c_checkout w)) =
        world_audit w @
          [\<lparr>UserID = GetUint c_checkout ''user_id'', Action = ''CART_CHECKOUT'', Entity = ''WALLET'',
            EntityID = GetUint c_checkout ''user_id'',
            Details = ''User completed checkout from cart'',
            IPAddress = ClientIP c_checkout, UserAgent = Request_UserAgent c_checkout\<rparr>]"
    by (rule Handler_Checkout_audit)
next
  show "world_audit (snd (Handler_AddToCart svc_add c_add w)) = world_audit w"
    by (rule cart_handlers_no_audit)
  show "world_audit (snd (Handler_UpdateCartItem svc_set c_set w)) = world_audit w"
    by (rule cart_handlers_no_audit)
  show "world_audit (snd (Handler_RemoveFromCart svc_remove c_remove w)) = world_audit w"
    by (rule cart_handlers_no_audit)
qed

text \<open>
  Claim C5 as stated fails for the cart handlers: a removal that succeeds and deletes a
  cart row leaves the audit log empty.
\<close>

theorem cart_removal_leaves_no_audit:
  "Handler_RemoveFromCart Service_RemoveFromCart
     \<lparr>Params = (\<lambda>k. if k = ''id'' then ''1'' else []),
      QueryValues = (\<lambda>k. None),
      Keys = (\<lambda>k. if k = ''user_id'' then Some (AnyUint 7) else None),
      ClientIP = ''10.0.0.1'', Request_UserAgent = ''curl'', ShouldBindJSON = Inr ()\<rparr>
     \<lparr>world_db =
        \<lparr>products = [],
         cart_items = [\<lparr>cart_id = 1, cart_user_id = 7, cart_product_id = 4, cart_quantity = 2\<rparr>],
         marketplace_transactions = [], wallets = [], users = [], now = 40\<rparr>,
      world_audit = []\<rparr>
   = (SuccessResponse 200 ''Produk berhasil dihapus dari keranjang'' (),
      \<lparr>world_db =
         \<lparr>products = [], cart_items = [], marketplace_transactions = [], wallets = [], users = [],
          now = 40\<rparr>,
       world_audit = []\<rparr>)"
  by (simp add: Handler_RemoveFromCart_def Service_RemoveFromCart_def RemoveFromCart_def
        gorm_Delete_def GetUint_def ParseUint_def is_digit_def digit_value_def Let_def)

theorem audit_on_success_witness:
  "Handler_Delete Service_DeleteProduct
     \<lparr>Params = (\<lambda>k. if k = ''id'' then ''1'' else []),
      QueryValues = (\<lambda>k. None),
      Keys = (\<lambda>k. if k = ''user_id'' then Some (AnyUint 9) else None),
      ClientIP = ''10.0.0.1'', Request_UserAgent = ''curl'', ShouldBindJSON = Inr ()\<rparr>
     \<lparr>world_db =
        \<lparr>products =
           [\<lparr>product_id = 1, product_name = ''pen'', product_description = [], product_price = 30,
             product_stock = 5, product_status = ''active'', product_created_at = 10, product_updated_at = 10\<rparr>],
         cart_items = [], marketplace_transactions = [], wallets = [], users = [], now = 40\<rparr>,
      world_audit = []\<rparr>
   = (SuccessResponse 200 ''Product deleted successfully'' (),
      \<lparr>world_db =
         \<lparr>products =
            [\<lparr>product_id = 1, product_name = ''pen'', product_description = [], product_price = 30,
              product_stock = 5, product_status = ''inactive'', product_created_at = 10, product_updated_at = 40\<rparr>],
          cart_items = [], marketplace_transactions = [], wallets = [], users = [], now = 40\<rparr>,
       world_audit =
         [\<lparr>UserID = 9, Action = ''DELETE_PRODUCT'', Entity = ''PRODUCT'', EntityID = 1,
           Details = ''Admin deleted product ID: 1'', IPAddress = ''10.0.0.1'', UserAgent = ''curl''\<rparr>]\<rparr>)"
  using audit_on_success
    [where svc_delete = Service_DeleteProduct
       and c_delete = "\<lparr>Params = (\<lambda>k. if k = ''id'' then ''1'' else []),
            QueryValues = (\<lambda>k. None),
            Keys = (\<lambda>k. if k = ''user_id'' then Some (AnyUint 9) else None),
            ClientIP = ''10.0.0.1'', Request_UserAgent = ''curl'', ShouldBindJSON = Inr ()\<rparr>"
       and w = "\<lparr>world_db =
            \<lparr>products =
               [\<lparr>product_id = 1, product_name = ''pen'', product_description = [], product_price = 30,
                 product_stock = 5, product_status = ''active'', product_created_at = 10, product_updated_at = 10\<rparr>],
             cart_items = [], marketplace_transactions = [], wallets = [], users = [], now = 40\<rparr>,
          world_audit = []\<rparr>"]
  by (simp add: Handler_Delete_def Service_DeleteProduct_def FindByID_def gorm_First_def Delete_def
        gorm_Update_def GetUint_def ParseUint_def is_digit_def digit_value_def Let_def
        LogActivity_def FormatUint.simps)

section \<open>Item ids that do not parse\<close>









section \<open>Products that do not exist\<close>

text \<open>
  Claim C8. For an id that no product of the store has, \<open>FindByID\<close> fails with "product
  not found"; so do get-by-id, update and delete of the service, leaving the database as it
  was; and the three handlers answer 404 with that message and leave the database and the
  audit log as they were (update for a body that binds).
\<close>

theorem absent_product_not_found:
  fixes c :: "UpdateProductRequest Context"
  assumes absent: "\<forall>p \<in> set (products (world_db w)). product_id p \<noteq> productID"
  shows "FindByID (world_db w) productID = Inl (ErrNew ''product not found'')
       \<and> Service_GetProductByID productID (world_db w) = (Inl (ErrNew ''product not found''), world_db w)
       \<and> Service_UpdateProduct productID req (world_db w) = (Inl (ErrNew ''product not found''), world_db w)
       \<and> Service_DeleteProduct productID (world_db w) = (Some (ErrNew ''product not found''), world_db w)
       \<and> (ParseUint (Params c ''id'') 32 = (productID, None) \<longrightarrow>
             Handler_GetByID Service_GetProductByID c w
               = (ErrorResponse 404 ''product not found'' None, w)
           \<and> Handler_Delete Service_DeleteProduct c w
               = (ErrorResponse 404 ''product not found'' None, w)
           \<and> (ShouldBindJSON c = Inr req \<longrightarrow>
                 Handler_Update Service_UpdateProduct c w
                   = (ErrorResponse 404 ''product not found'' None, w)))"
proof -
  have find: "FindByID (world_db w) productID = Inl (ErrNew ''product not found'')"
    using absent by (rule FindByID_absent)
  have get: "Service_GetProductByID productID (world_db w) = (Inl (ErrNew ''product not found''), world_db w)"
    by (simp add: Service_GetProductByID_def find)
  have upd: "Service_UpdateProduct productID req (world_db w) = (Inl (ErrNew ''product not found''), world_db w)"
    by (simp add: Service_UpdateProduct_def find)
  have del: "Service_DeleteProduct productID (world_db w) = (Some (ErrNew ''product not found''), world_db w)"
    by (simp add: Service_DeleteProduct_def find)
  have handlers: "ParseUint (Params c ''id'') 32 = (productID, None) \<longrightarrow>
             Handler_GetByID Service_GetProductByID c w
               = (ErrorResponse 404 ''product not found'' None, w)
           \<and> Handler_Delete Service_DeleteProduct c w
               = (ErrorResponse 404 ''product not found'' None, w)
           \<and> (ShouldBindJSON c = Inr req \<longrightarrow>
                 Handler_Update Service_UpdateProduct c w
                   = (ErrorResponse 404 ''product not found'' None, w))"
    by (simp add: Handler_GetByID_def Handler_Delete_def Handler_Update_def get upd del Let_def)
  show ?thesis using find get upd del handlers by blast
qed

theorem absent_product_not_found_witness:
  "Handler_Delete Service_DeleteProduct
     \<lparr>Params = (\<lambda>k. if k = ''id'' then ''2'' else []),
      QueryValues = (\<lambda>k. None),
      Keys = (\<lambda>k. if k = ''user_id'' then Some (AnyUint 9) else None),
      ClientIP = ''10.0.0.1'', Request_UserAgent = ''curl'',
      ShouldBindJSON = Inr \<lparr>new_name = None, new_description = None, new_price = None,
                              new_stock = Some 3, new_status = None\<rparr>\<rparr>
     \<lparr>world_db =
        \<lparr>products =
           [\<lparr>product_id = 1, product_name = ''pen'', product_description = [], product_price = 30,
             product_stock = 5, product_status = ''active'', product_created_at = 10, product_updated_at = 10\<rparr>],
         cart_items = [], marketplace_transactions = [], wallets = [], users = [], now = 40\<rparr>,
      world_audit = []\<rparr>
   = (ErrorResponse 404 ''product not found'' None,
      \<lparr>world_db =
        \<lparr>products =
           [\<lparr>product_id = 1, product_name = ''pen'', product_description = [], product_price = 30,
             product_stock = 5, product_status = ''active'', product_created_at = 10, product_updated_at = 10\<rparr>],
         cart_items = [], marketplace_transactions = [], wallets = [], users = [], now = 40\<rparr>,
      world_audit = []\<rparr>)
   \<and> Handler_Update Service_UpdateProduct
     \<lparr>Params = (\<lambda>k. if k = ''id'' then ''2'' else []),
      QueryValues = (\<lambda>k. None),
      Keys = (\<lambda>k. if k = ''user_id'' then Some (AnyUint 9) else None),
      ClientIP = ''10.0.0.1'', Request_UserAgent = ''curl'',
      ShouldBindJSON = Inr \<lparr>new_name = None, new_description = None, new_price = None,
                              new_stock = Some 3, new_status = None\<rparr>\<rparr>
     \<lparr>world_db =
        \<lparr>products =
           [\<lparr>product_id = 1, product_name = ''pen'', product_description = [], product_price = 30,
             product_stock = 5, product_status = ''active'', product_created_at = 10, product_updated_at = 10\<rparr>],
         cart_items = [], marketplace_transactions = [], wallets = [], users = [], now = 40\<rparr>,
      world_audit = []\<rparr>
   = (ErrorResponse 404 ''product not found'' None,
      \<lparr>world_db =
        \<lparr>products =
           [\<lparr>product_id = 1, product_name = ''pen'', product_description = [], product_price = 30,
             product_stock = 5, product_status = ''active'', product_created_at = 10, product_updated_at = 10\<rparr>],
         cart_items = [], marketplace_transactions = [], wallets = [], users = [], now = 40\<rparr>,
      world_audit = []\<rparr>)"
  using absent_product_not_found
    [of "\<lparr>world_db =
        \<lparr>products =
           [\<lparr>product_id = 1, product_name = ''pen'', product_description = [], product_price = 30,
             product_stock = 5, product_status = ''active'', product_created_at = 10, product_updated_at = 10\<rparr>],
         cart_items = [], marketplace_transactions = [], wallets = [], users = [], now = 40\<rparr>,
      world_audit = []\<rparr>"
      2
      "\<lparr>new_name = None, new_description = None, new_price = None,
                              new_stock = Some 3, new_status = None\<rparr>"
      "\<lparr>Params = (\<lambda>k. if k = ''id'' then ''2'' else []),
      QueryValues = (\<lambda>k. None),
      Keys = (\<lambda>k. if k = ''user_id'' then Some (AnyUint 9) else None),
      ClientIP = ''10.0.0.1'', Request_UserAgent = ''curl'',
      ShouldBindJSON = Inr \<lparr>new_name = None, new_description = None, new_price = None,
                              new_stock = Some 3, new_status = None\<rparr>\<rparr>"]
  by (simp add: ParseUint_def is_digit_def digit_value_def Let_def)

section \<open>Purchase and checkout are all or nothing\<close>

lemma Transaction_failure: "Transaction commit body db = (Some err, db') \<Longrightarrow> db' = db"
  by (auto simp: Transaction_def split: sum.splits option.splits)

lemma Transaction_success:
  "Transaction commit body db = (None, db') \<longleftrightarrow> body db = Inr db' \<and> commit = None"
  by (auto simp: Transaction_def split: sum.splits option.splits)

lemma UpdateStock_success:
  "UpdateStock db (Some tx) engine productID delta = (None, tx') \<longleftrightarrow>
     engine = None \<and>
     tx' = tx\<lparr>products :=
             gorm_Update (\<lambda>p. product_id p = productID)
               (\<lambda>p. p\<lparr>product_stock := product_stock p + delta, product_updated_at := now tx\<rparr>)
               (products tx)\<rparr>"
  by (auto simp: UpdateStock_def split: option.splits)

lemma CreateTransaction_success:
  "CreateTransaction db (Some tx) engine
      \<lparr>mt_id = 0, mt_wallet_id = w, mt_product_id = p, mt_quantity = q, mt_amount = a, mt_created_at = 0\<rparr>
     = (None, tx') \<longleftrightarrow>
   engine = None \<and>
   tx' = tx\<lparr>marketplace_transactions :=
           marketplace_transactions tx @
             [\<lparr>mt_id = auto_increment (map mt_id (marketplace_transactions tx)), mt_wallet_id = w,
               mt_product_id = p, mt_quantity = q, mt_amount = a, mt_created_at = now tx\<rparr>]\<rparr>"
proof -
  have "auto_increment (map mt_id (marketplace_transactions tx)) \<notin> set (map mt_id (marketplace_transactions tx))"
    using auto_increment_bound [of "auto_increment (map mt_id (marketplace_transactions tx))"
            "map mt_id (marketplace_transactions tx)"] by blast
  then show ?thesis
    by (auto simp: CreateTransaction_def Let_def split: option.splits)
qed

lemma DebitWallet_success:
  "DebitWallet tx engine walletID amount = (None, tx') \<longleftrightarrow>
     engine = None \<and>
     tx' = tx\<lparr>wallets :=
             gorm_Update (\<lambda>w. wallet_id w = walletID)
               (\<lambda>w. w\<lparr>wallet_balance := wallet_balance w - amount\<rparr>) (wallets tx)\<rparr>"
  by (auto simp: DebitWallet_def split: option.splits)

lemma ClearCart_success:
  "ClearCart db (Some tx) engine userID = (None, tx') \<longleftrightarrow>
     engine = None \<and>
     tx' = tx\<lparr>cart_items := gorm_Delete (\<lambda>r. cart_user_id r = userID) (cart_items tx)\<rparr>"
  by (auto simp: ClearCart_def split: option.splits)

lemma decrement_stock_no_fault:
  "decrement_stock faults db lines tx = Inr tx' \<Longrightarrow> decrement_stock (\<lambda>s. None) db lines tx = Inr tx'"
proof (induction lines arbitrary: tx)
  case Nil
  then show ?case by simp
next
  case (Cons line lines)
  obtain product quantity where line: "line = (product, quantity)" by (cases line)
  show ?case
  proof (cases "UpdateStock db (Some tx) (faults (StockStatement (product_id product)))
                  (product_id product) (- quantity)")
    case (Pair e tx1)
    show ?thesis
    proof (cases e)
      case None
      then have ok: "UpdateStock db (Some tx) None (product_id product) (- quantity) = (None, tx1)"
        using Pair by (simp add: UpdateStock_success)
      have "decrement_stock faults db lines tx1 = Inr tx'"
        using Cons.prems Pair None line by simp
      then have "decrement_stock (\<lambda>s. None) db lines tx1 = Inr tx'"
        by (rule Cons.IH)
      then show ?thesis using ok line by simp
    next
      case (Some err)
      then show ?thesis using Cons.prems Pair line by simp
    qed
  qed
qed

lemma write_ledger_no_fault:
  "write_ledger faults db walletID lines tx = Inr tx' \<Longrightarrow>
   write_ledger (\<lambda>s. None) db walletID lines tx = Inr tx'"
proof (induction lines arbitrary: tx)
  case Nil
  then show ?case by simp
next
  case (Cons line lines)
  obtain product quantity where line: "line = (product, quantity)" by (cases line)
  let ?row = "\<lparr>mt_id = 0, mt_wallet_id = walletID, mt_product_id = product_id product,
               mt_quantity = quantity, mt_amount = product_price product * quantity,
               mt_created_at = 0\<rparr>"
  show ?case
  proof (cases "CreateTransaction db (Some tx) (faults (LedgerStatement (product_id product))) ?row")
    case (Pair e tx1)
    show ?thesis
    proof (cases e)
      case None
      then have ok: "CreateTransaction db (Some tx) None ?row = (None, tx1)"
        using Pair by (simp add: CreateTransaction_success)
      have "write_ledger faults db walletID lines tx1 = Inr tx'"
        using Cons.prems Pair None line by simp
      then have "write_ledger (\<lambda>s. None) db walletID lines tx1 = Inr tx'"
        by (rule Cons.IH)
      then show ?thesis using ok line by simp
    next
      case (Some err)
      then show ?thesis using Cons.prems Pair line by simp
    qed
  qed
qed

lemma purchase_lines_no_fault:
  assumes "purchase_lines faults db userID requested clear_cart tx = Inr tx'"
  shows "purchase_lines (\<lambda>s. None) db userID requested clear_cart tx = Inr tx'"
proof -
  from assms obtain lines where lines: "read_lines tx requested = Inr lines"
    by (auto simp: purchase_lines_def split: sum.splits)
  from assms lines obtain wallet where wallet: "find (\<lambda>w. wallet_user_id w = userID) (wallets tx) = Some wallet"
    by (auto simp: purchase_lines_def split: option.splits)
  from assms lines wallet have bal: "\<not> wallet_balance wallet < total_cost lines"
    by (auto simp: purchase_lines_def split: if_splits)
  from assms lines wallet bal obtain tx1 where
    debit: "DebitWallet tx (faults DebitStatement) (wallet_id wallet) (total_cost lines) = (None, tx1)"
    by (auto simp: purchase_lines_def split: prod.splits option.splits)
  then have debit0: "DebitWallet tx None (wallet_id wallet) (total_cost lines) = (None, tx1)"
    by (simp add: DebitWallet_success)
  from assms lines wallet bal debit obtain tx2 where
    dec: "decrement_stock faults db lines tx1 = Inr tx2"
    by (auto simp: purchase_lines_def split: sum.splits)
  from assms lines wallet bal debit dec obtain tx3 where
    led: "write_ledger faults db (wallet_id wallet) lines tx2 = Inr tx3"
    by (auto simp: purchase_lines_def split: sum.splits)
  have rest: "(if clear_cart
               then (case ClearCart db (Some tx3) (faults ClearCartStatement) userID of
                       (Some err, tx4) \<Rightarrow> Inl err | (None, tx4) \<Rightarrow> Inr tx4)
               else Inr tx3) = Inr tx'"
    using assms lines wallet bal debit dec led by (simp add: purchase_lines_def)
  have rest0: "(if clear_cart
               then (case ClearCart db (Some tx3) None userID of
                       (Some err, tx4) \<Rightarrow> Inl err | (None, tx4) \<Rightarrow> Inr tx4)
               else Inr tx3) = Inr tx'"
  proof (cases clear_cart)
    case True
    then obtain e tx4 where c: "ClearCart db (Some tx3) (faults ClearCartStatement) userID = (e, tx4)"
      by (cases "ClearCart db (Some tx3) (faults ClearCartStatement) userID") blast
    then have "e = None" "tx4 = tx'" using rest True by (auto split: option.splits)
    then have "ClearCart db (Some tx3) None userID = (None, tx')"
      using c by (simp add: ClearCart_success)
    then show ?thesis using True by simp
  next
    case False
    then show ?thesis using rest by simp
  qed
  show ?thesis
    using lines wallet bal debit0 decrement_stock_no_fault [OF dec] write_ledger_no_fault [OF led] rest0
    by (simp add: purchase_lines_def)
qed

lemma decrement_stock_frame:
  "decrement_stock faults db lines tx = Inr tx' \<Longrightarrow>
     cart_items tx' = cart_items tx \<and> wallets tx' = wallets tx
     \<and> marketplace_transactions tx' = marketplace_transactions tx \<and> users tx' = users tx
     \<and> now tx' = now tx"
proof (induction lines arbitrary: tx)
  case Nil
  then show ?case by simp
next
  case (Cons line lines)
  obtain product quantity where line: "line = (product, quantity)" by (cases line)
  from Cons.prems line obtain tx1 where
    step: "UpdateStock db (Some tx) (faults (StockStatement (product_id product)))
             (product_id product) (- quantity) = (None, tx1)"
    and rest: "decrement_stock faults db lines tx1 = Inr tx'"
    by (auto split: prod.splits option.splits)
  from step have "cart_items tx1 = cart_items tx \<and> wallets tx1 = wallets tx
     \<and> marketplace_transactions tx1 = marketplace_transactions tx \<and> users tx1 = users tx
     \<and> now tx1 = now tx"
    by (simp add: UpdateStock_success)
  then show ?case using Cons.IH [OF rest] by simp
qed

lemma write_ledger_frame:
  "write_ledger faults db walletID lines tx = Inr tx' \<Longrightarrow>
     cart_items tx' = cart_items tx \<and> wallets tx' = wallets tx
     \<and> products tx' = products tx \<and> users tx' = users tx \<and> now tx' = now tx"
proof (induction lines arbitrary: tx)
  case Nil
  then show ?case by simp
next
  case (Cons line lines)
  obtain product quantity where line: "line = (product, quantity)" by (cases line)
  from Cons.prems line obtain tx1 where
    step: "CreateTransaction db (Some tx) (faults (LedgerStatement (product_id product)))
             \<lparr>mt_id = 0, mt_wallet_id = walletID, mt_product_id = product_id product,
              mt_quantity = quantity, mt_amount = product_price product * quantity,
              mt_created_at = 0\<rparr> = (None, tx1)"
    and rest: "write_ledger faults db walletID lines tx1 = Inr tx'"
    by (auto split: prod.splits option.splits)
  from step have "cart_items tx1 = cart_items tx \<and> wallets tx1 = wallets tx
     \<and> products tx1 = products tx \<and> users tx1 = users tx \<and> now tx1 = now tx"
    by (simp add: CreateTransaction_success)
  then show ?case using Cons.IH [OF rest] by simp
qed

lemma purchase_lines_steps:
  assumes "purchase_lines faults db userID requested clear_cart tx = Inr tx'"
  shows "\<exists>lines wallet tx1 tx2 tx3.
           read_lines tx requested = Inr lines
         \<and> find (\<lambda>w. wallet_user_id w = userID) (wallets tx) = Some wallet
         \<and> total_cost lines \<le> wallet_balance wallet
         \<and> DebitWallet tx None (wallet_id wallet) (total_cost lines) = (None, tx1)
         \<and> decrement_stock faults db lines tx1 = Inr tx2
         \<and> write_ledger faults db (wallet_id wallet) lines tx2 = Inr tx3
         \<and> tx' = (if clear_cart
                   then tx3\<lparr>cart_items := gorm_Delete (\<lambda>r. cart_user_id r = userID) (cart_items tx3)\<rparr>
                   else tx3)"
proof -
  from assms obtain lines where lines: "read_lines tx requested = Inr lines"
    by (auto simp: purchase_lines_def split: sum.splits)
  from assms lines obtain wallet where wallet: "find (\<lambda>w. wallet_user_id w = userID) (wallets tx) = Some wallet"
    by (auto simp: purchase_lines_def split: option.splits)
  from assms lines wallet have bal: "\<not> wallet_balance wallet < total_cost lines"
    by (auto simp: purchase_lines_def split: if_splits)
  from assms lines wallet bal obtain tx1 where
    debit: "DebitWallet tx (faults DebitStatement) (wallet_id wallet) (total_cost lines) = (None, tx1)"
    by (auto simp: purchase_lines_def split: prod.splits option.splits)
  then have debit0: "DebitWallet tx None (wallet_id wallet) (total_cost lines) = (None, tx1)"
    by (simp add: DebitWallet_success)
  from assms lines wallet bal debit obtain tx2 where
    dec: "decrement_stock faults db lines tx1 = Inr tx2"
    by (auto simp: purchase_lines_def split: sum.splits)
  from assms lines wallet bal debit dec obtain tx3 where
    led: "write_ledger faults db (wallet_id wallet) lines tx2 = Inr tx3"
    by (auto simp: purchase_lines_def split: sum.splits)
  have rest: "(if clear_cart
               then (case ClearCart db (Some tx3) (faults ClearCartStatement) userID of
                       (Some err, tx4) \<Rightarrow> Inl err | (None, tx4) \<Rightarrow> Inr tx4)
               else Inr tx3) = Inr tx'"
    using assms lines wallet bal debit dec led by (simp add: purchase_lines_def)
  have final: "tx' = (if clear_cart
                   then tx3\<lparr>cart_items := gorm_Delete (\<lambda>r. cart_user_id r = userID) (cart_items tx3)\<rparr>
                   else tx3)"
  proof (cases clear_cart)
    case True
    then obtain e tx4 where c: "ClearCart db (Some tx3) (faults ClearCartStatement) userID = (e, tx4)"
      by (cases "ClearCart db (Some tx3) (faults ClearCartStatement) userID") blast
    then have "e = None" "tx4 = tx'" using rest True by (auto split: option.splits)
    then show ?thesis using c True by (simp add: ClearCart_success)
  next
    case False
    then show ?thesis using rest by simp
  qed
  show ?thesis
    using lines wallet bal debit0 dec led final by (intro exI conjI) auto
qed

lemma read_lines_single:
  "read_lines tx [(productID, quantity)] = Inr lines \<Longrightarrow>
     \<exists>product. FindByID tx productID = Inr product \<and> quantity \<le> product_stock product
              \<and> lines = [(product, quantity)]"
  by (auto split: sum.splits if_splits)

lemma gorm_First_Inr:
  "gorm_First pk cond rows = Inr r \<Longrightarrow> r \<in> set rows \<and> cond r"
proof -
  assume a: "gorm_First pk cond rows = Inr r"
  then have f: "find cond (sort_key pk rows) = Some r"
    by (auto simp: gorm_First_def split: option.splits)
  then obtain i where "i < length (sort_key pk rows)" "r = sort_key pk rows ! i" "cond r"
    unfolding find_Some_iff by blast
  then have "r \<in> set (sort_key pk rows)" by (metis nth_mem)
  then show ?thesis using \<open>cond r\<close> by simp
qed

lemma FindByID_Inr:
  "FindByID db productID = Inr p \<Longrightarrow> p \<in> set (products db) \<and> product_id p = productID"
proof -
  assume a: "FindByID db productID = Inr p"
  then have "gorm_First product_id (\<lambda>x. product_id x = productID) (products db) = Inr p"
    by (auto simp: FindByID_def split: sum.splits if_splits)
  then show ?thesis by (rule gorm_First_Inr)
qed

lemma purchase_success_state:
  assumes ok: "Service_PurchaseProduct faults userID req db = (None, db')"
  shows "\<exists>product wallet.
            FindByID db (purchase_product_id req) = Inr product
          \<and> find (\<lambda>w. wallet_user_id w = userID) (wallets db) = Some wallet
          \<and> purchase_quantity req \<le> product_stock product
          \<and> product_price product * purchase_quantity req \<le> wallet_balance wallet
          \<and> db' = db\<lparr>wallets :=
                        gorm_Update (\<lambda>w. wallet_id w = wallet_id wallet)
                          (\<lambda>w. w\<lparr>wallet_balance :=
                                   wallet_balance w - product_price product * purchase_quantity req\<rparr>)
                          (wallets db),
                      products :=
                        gorm_Update (\<lambda>p. product_id p = purchase_product_id req)
                          (\<lambda>p. p\<lparr>product_stock := product_stock p - purchase_quantity req,
                                  product_updated_at := now db\<rparr>)
                          (products db),
                      marketplace_transactions :=
                        marketplace_transactions db @
                          [\<lparr>mt_id = auto_increment (map mt_id (marketplace_transactions db)),
                            mt_wallet_id = wallet_id wallet,
                            mt_product_id = purchase_product_id req,
                            mt_quantity = purchase_quantity req,
                            mt_amount = product_price product * purchase_quantity req,
                            mt_created_at = now db\<rparr>]\<rparr>"
proof -
  let ?pid = "purchase_product_id req" and ?q = "purchase_quantity req"
  have body: "purchase_lines faults db userID [(?pid, ?q)] False db = Inr db'"
    using ok by (simp add: Service_PurchaseProduct_def Transaction_success)
  from purchase_lines_steps [OF body] obtain lines wallet tx1 tx2 tx3 where
    lines: "read_lines db [(?pid, ?q)] = Inr lines"
    and wallet: "find (\<lambda>w. wallet_user_id w = userID) (wallets db) = Some wallet"
    and bal: "total_cost lines \<le> wallet_balance wallet"
    and debit: "DebitWallet db None (wallet_id wallet) (total_cost lines) = (None, tx1)"
    and dec: "decrement_stock faults db lines tx1 = Inr tx2"
    and led: "write_ledger faults db (wallet_id wallet) lines tx2 = Inr tx3"
    and final: "db' = tx3"
    by auto
  from read_lines_single [OF lines] obtain product where
    product: "FindByID db ?pid = Inr product" and stock: "?q \<le> product_stock product"
    and single: "lines = [(product, ?q)]"
    by blast
  have pid: "product_id product = ?pid"
    using FindByID_Inr [OF product] by simp
  have cost: "total_cost lines = product_price product * ?q"
    by (simp add: single total_cost_def)
  have tx1: "tx1 = db\<lparr>wallets :=
                        gorm_Update (\<lambda>w. wallet_id w = wallet_id wallet)
                          (\<lambda>w. w\<lparr>wallet_balance := wallet_balance w - product_price product * ?q\<rparr>)
                          (wallets db)\<rparr>"
    using debit by (simp add: DebitWallet_success cost)
  have tx2: "tx2 = tx1\<lparr>products :=
                        gorm_Update (\<lambda>p. product_id p = ?pid)
                          (\<lambda>p. p\<lparr>product_stock := product_stock p - ?q, product_updated_at := now tx1\<rparr>)
                          (products tx1)\<rparr>"
    using dec by (auto simp: single pid UpdateStock_success split: prod.splits option.splits)
  have tx3: "tx3 = tx2\<lparr>marketplace_transactions :=
                        marketplace_transactions tx2 @
                          [\<lparr>mt_id = auto_increment (map mt_id (marketplace_transactions tx2)),
                            mt_wallet_id = wallet_id wallet, mt_product_id = ?pid,
                            mt_quantity = ?q, mt_amount = product_price product * ?q,
                            mt_created_at = now tx2\<rparr>]\<rparr>"
    using led by (auto simp: single pid CreateTransaction_success split: prod.splits option.splits)
  have dbeq: "db' = db\<lparr>wallets :=
                        gorm_Update (\<lambda>w. wallet_id w = wallet_id wallet)
                          (\<lambda>w. w\<lparr>wallet_balance := wallet_balance w - product_price product * ?q\<rparr>)
                          (wallets db),
                      products :=
                        gorm_Update (\<lambda>p. product_id p = ?pid)
                          (\<lambda>p. p\<lparr>product_stock := product_stock p - ?q, product_updated_at := now db\<rparr>)
                          (products db),
                      marketplace_transactions :=
                        marketplace_transactions db @
                          [\<lparr>mt_id = auto_increment (map mt_id (marketplace_transactions db)),
                            mt_wallet_id = wallet_id wallet, mt_product_id = ?pid,
                            mt_quantity = ?q, mt_amount = product_price product * ?q,
                            mt_created_at = now db\<rparr>]\<rparr>"
    unfolding final tx3 tx2 tx1 by simp
  have bal': "product_price product * ?q \<le> wallet_balance wallet"
    using bal cost by simp
  show ?thesis
    by (rule exI [of _ product], rule exI [of _ wallet]) (intro conjI product wallet stock bal' dbeq)
qed

lemma checkout_success_cart:
  assumes ok: "Service_Checkout faults userID creq db = (None, db')"
  shows "cart_items db' = filter (\<lambda>r. cart_user_id r \<noteq> userID) (cart_items db)"
proof -
  let ?requested = "map (\<lambda>(item, product). (cart_product_id item, sint (cart_quantity item)))
                        (fst (GetCart db userID))"
  have body: "purchase_lines faults db userID ?requested True db = Inr db'"
    using ok by (simp add: Service_Checkout_def Transaction_success)
  from purchase_lines_steps [OF body] obtain lines wallet tx1 tx2 tx3 where
    lines: "read_lines db ?requested = Inr lines"
    and wallet: "find (\<lambda>w. wallet_user_id w = userID) (wallets db) = Some wallet"
    and bal: "total_cost lines \<le> wallet_balance wallet"
    and debit: "DebitWallet db None (wallet_id wallet) (total_cost lines) = (None, tx1)"
    and dec: "decrement_stock faults db lines tx1 = Inr tx2"
    and led: "write_ledger faults db (wallet_id wallet) lines tx2 = Inr tx3"
    and final: "db' = tx3\<lparr>cart_items := gorm_Delete (\<lambda>r. cart_user_id r = userID) (cart_items tx3)\<rparr>"
    by auto
  have "cart_items tx1 = cart_items db"
    using debit by (simp add: DebitWallet_success)
  then have "cart_items tx3 = cart_items db"
    using decrement_stock_frame [OF dec] write_ledger_frame [OF led] by simp
  then show ?thesis
    unfolding final by (simp add: gorm_Delete_def)
qed

text \<open>
  Claim C1. Whatever statement the storage engine refuses, a purchase or a cart checkout
  that returns an error (insufficient stock, insufficient balance, a missing product or
  wallet, a refused write or a refused commit) leaves the whole database as it was before
  the call: stock, wallets, ledger and cart. A purchase or checkout that returns no error
  ends in the state of the run in which no statement is refused, so every write took
  effect: for a purchase that state is the database with the wallet debited by price times
  quantity, the stock decremented by the quantity and one ledger row appended; for a
  checkout it has no cart row of the user left.
\<close>

theorem purchase_all_or_nothing:
  "(\<forall>err db'. Service_PurchaseProduct faults userID req db = (Some err, db') \<longrightarrow> db' = db)
   \<and> (\<forall>err db'. Service_Checkout faults userID creq db = (Some err, db') \<longrightarrow> db' = db)
   \<and> (\<forall>db'. Service_PurchaseProduct faults userID req db = (None, db') \<longrightarrow>
          Service_PurchaseProduct (\<lambda>s. None) userID req db = (None, db')
        \<and> (\<exists>product wallet.
              FindByID db (purchase_product_id req) = Inr product
            \<and> find (\<lambda>w. wallet_user_id w = userID) (wallets db) = Some wallet
            \<and> purchase_quantity req \<le> product_stock product
            \<and> product_price product * purchase_quantity req \<le> wallet_balance wallet
            \<and> db' = db\<lparr>wallets :=
                          gorm_Update (\<lambda>w. wallet_id w = wallet_id wallet)
                            (\<lambda>w. w\<lparr>wallet_balance :=
                                     wallet_balance w - product_price product * purchase_quantity req\<rparr>)
                            (wallets db),
                        products :=
                          gorm_Update (\<lambda>p. product_id p = purchase_product_id req)
                            (\<lambda>p. p\<lparr>product_stock := product_stock p - purchase_quantity req,
                                    product_updated_at := now db\<rparr>)
                            (products db),
                        marketplace_transactions :=
                          marketplace_transactions db @
                            [\<lparr>mt_id = auto_increment (map mt_id (marketplace_transactions db)),
                              mt_wallet_id = wallet_id wallet,
                              mt_product_id = purchase_product_id req,
                              mt_quantity = purchase_quantity req,
                              mt_amount = product_price product * purchase_quantity req,
                              mt_created_at = now db\<rparr>]\<rparr>))
   \<and> (\<forall>db'. Service_Checkout faults userID creq db = (None, db') \<longrightarrow>
          Service_Checkout (\<lambda>s. None) userID creq db = (None, db')
        \<and> cart_items db' = filter (\<lambda>r. cart_user_id r \<noteq> userID) (cart_items db))"
proof (intro conjI allI impI)
  fix err db'
  assume "Service_PurchaseProduct faults userID req db = (Some err, db')"
  then show "db' = db"
    unfolding Service_PurchaseProduct_def by (rule Transaction_failure)
next
  fix err db'
  assume "Service_Checkout faults userID creq db = (Some err, db')"
  then show "db' = db"
    unfolding Service_Checkout_def by (rule Transaction_failure)
next
  fix db'
  assume ok: "Service_PurchaseProduct faults userID req db = (None, db')"
  then have "purchase_lines faults db userID [(purchase_product_id req, purchase_quantity req)] False db
               = Inr db'"
    by (simp add: Service_PurchaseProduct_def Transaction_success)
  then have "purchase_lines (\<lambda>s. None) db userID [(purchase_product_id req, purchase_quantity req)] False db
               = Inr db'"
    by (rule purchase_lines_no_fault)
  then show "Service_PurchaseProduct (\<lambda>s. None) userID req db = (None, db')"
    by (simp add: Service_PurchaseProduct_def Transaction_success)
  show "\<exists>product wallet.
              FindByID db (purchase_product_id req) = Inr product
            \<and> find (\<lambda>w. wallet_user_id w = userID) (wallets db) = Some wallet
            \<and> purchase_quantity req \<le> product_stock product
            \<and> product_price product * purchase_quantity req \<le> wallet_balance wallet
            \<and> db' = db\<lparr>wallets :=
                          gorm_Update (\<lambda>w. wallet_id w = wallet_id wallet)
                            (\<lambda>w. w\<lparr>wallet_balance :=
                                     wallet_balance w - product_price product * purchase_quantity req\<rparr>)
                            (wallets db),
                        products :=
                          gorm_Update (\<lambda>p. product_id p = purchase_product_id req)
                            (\<lambda>p. p\<lparr>product_stock := product_stock p - purchase_quantity req,
                                    product_updated_at := now db\<rparr>)
                            (products db),
                        marketplace_transactions :=
                          marketplace_transactions db @
                            [\<lparr>mt_id = auto_increment (map mt_id (marketplace_transactions db)),
                              mt_wallet_id = wallet_id wallet,
                              mt_product_id = purchase_product_id req,
                              mt_quantity = purchase_quantity req,
                              mt_amount = product_price product * purchase_quantity req,
                              mt_created_at = now db\<rparr>]\<rparr>"
    using ok by (rule purchase_success_state)
next
  fix db'
  assume ok: "Service_Checkout faults userID creq db = (None, db')"
  then have "purchase_lines faults db userID
               (map (\<lambda>(item, product). (cart_product_id item, sint (cart_quantity item)))
                    (fst (GetCart db userID))) True db = Inr db'"
    by (simp add: Service_Checkout_def Transaction_success)
  then have "purchase_lines (\<lambda>s. None) db userID
               (map (\<lambda>(item, product). (cart_product_id item, sint (cart_quantity item)))
                    (fst (GetCart db userID))) True db = Inr db'"
    by (rule purchase_lines_no_fault)
  then show "Service_Checkout (\<lambda>s. None) userID creq db = (None, db')"
    by (simp add: Service_Checkout_def Transaction_success)
  show "cart_items db' = filter (\<lambda>r. cart_user_id r \<noteq> userID) (cart_items db)"
    using ok by (rule checkout_success_cart)
qed

theorem purchase_all_or_nothing_witness:
  "Service_Checkout (\<lambda>s. if s = LedgerStatement 1 then Some (ErrStorage ''disk full'') else None) 7 ()
     \<lparr>products =
        [\<lparr>product_id = 1, product_name = ''pen'', product_description = [], product_price = 30,
          product_stock = 5, product_status = ''active'', product_created_at = 10, product_updated_at = 10\<rparr>],
      cart_items = [\<lparr>cart_id = 1, cart_user_id = 7, cart_product_id = 1, cart_quantity = 2\<rparr>],
      marketplace_transactions = [],
      wallets = [\<lparr>wallet_id = 3, wallet_user_id = 7, wallet_balance = 100\<rparr>],
      users = [], now = 40\<rparr>
   = (Some (ErrStorage ''disk full''),
      \<lparr>products =
        [\<lparr>product_id = 1, product_name = ''pen'', product_description = [], product_price = 30,
          product_stock = 5, product_status = ''active'', product_created_at = 10, product_updated_at = 10\<rparr>],
      cart_items = [\<lparr>cart_id = 1, cart_user_id = 7, cart_product_id = 1, cart_quantity = 2\<rparr>],
      marketplace_transactions = [],
      wallets = [\<lparr>wallet_id = 3, wallet_user_id = 7, wallet_balance = 100\<rparr>],
      users = [], now = 40\<rparr>)
   \<and> Service_Checkout (\<lambda>s. None) 7 ()
     \<lparr>products =
        [\<lparr>product_id = 1, product_name = ''pen'', product_description = [], product_price = 30,
          product_stock = 5, product_status = ''active'', product_created_at = 10, product_updated_at = 10\<rparr>],
      cart_items = [\<lparr>cart_id = 1, cart_user_id = 7, cart_product_id = 1, cart_quantity = 2\<rparr>],
      marketplace_transactions = [],
      wallets = [\<lparr>wallet_id = 3, wallet_user_id = 7, wallet_balance = 100\<rparr>],
      users = [], now = 40\<rparr>
   = (None,
      \<lparr>products =
        [\<lparr>product_id = 1, product_name = ''pen'', product_description = [], product_price = 30,
          product_stock = 3, product_status = ''active'', product_created_at = 10, product_updated_at = 40\<rparr>],
      cart_items = [],
      marketplace_transactions =
        [\<lparr>mt_id = 1, mt_wallet_id = 3, mt_product_id = 1, mt_quantity = 2, mt_amount = 60,
          mt_created_at = 40\<rparr>],
      wallets = [\<lparr>wallet_id = 3, wallet_user_id = 7, wallet_balance = 40\<rparr>],
      users = [], now = 40\<rparr>)"
  using purchase_all_or_nothing
    [of "\<lambda>s. if s = LedgerStatement 1 then Some (ErrStorage ''disk full'') else None" 7
        "\<lparr>purchase_product_id = 1, purchase_quantity = 2\<rparr>"
        "\<lparr>products =
        [\<lparr>product_id = 1, product_name = ''pen'', product_description = [], product_price = 30,
          product_stock = 5, product_status = ''active'', product_created_at = 10, product_updated_at = 10\<rparr>],
      cart_items = [\<lparr>cart_id = 1, cart_user_id = 7, cart_product_id = 1, cart_quantity = 2\<rparr>],
      marketplace_transactions = [],
      wallets = [\<lparr>wallet_id = 3, wallet_user_id = 7, wallet_balance = 100\<rparr>],
      users = [], now = 40\<rparr>" "()"]
  by (simp add: Service_Checkout_def Transaction_def purchase_lines_def GetCart_def FindByID_def
        gorm_First_def total_cost_def DebitWallet_def UpdateStock_def CreateTransaction_def
        ClearCart_def gorm_Update_def gorm_Delete_def auto_increment_def Let_def)

section \<open>Stock never goes negative\<close>

lemma read_lines_Inr:
  "read_lines tx requested = Inr lines \<Longrightarrow>
     map (\<lambda>(p, q). (product_id p, q)) lines = requested
     \<and> (\<forall>(p, q) \<in> set lines. p \<in> set (products tx) \<and> q \<le> product_stock p)"
proof (induction requested arbitrary: lines)
  case Nil
  then show ?case by simp
next
  case (Cons r requested)
  obtain productID quantity where r: "r = (productID, quantity)" by (cases r)
  from Cons.prems r obtain product rest where
    product: "FindByID tx productID = Inr product"
    and stock: "quantity \<le> product_stock product"
    and rest: "read_lines tx requested = Inr rest"
    and lines: "lines = (product, quantity) # rest"
    by (auto split: sum.splits if_splits)
  have "product \<in> set (products tx) \<and> product_id product = productID"
    using product by (rule FindByID_Inr)
  then show ?case
    using Cons.IH [OF rest] stock lines r by auto
qed

lemma decrement_stock_nonneg:
  assumes "decrement_stock faults db lines tx = Inr tx'"
    and "distinct (map (\<lambda>(p, q). product_id p) lines)"
    and "\<forall>(p, q) \<in> set lines. \<forall>x \<in> set (products tx). product_id x = product_id p \<longrightarrow> q \<le> product_stock x"
    and "\<forall>x \<in> set (products tx). 0 \<le> product_stock x"
  shows "\<forall>x \<in> set (products tx'). 0 \<le> product_stock x"
  using assms
proof (induction lines arbitrary: tx)
  case Nil
  then show ?case by simp
next
  case (Cons line lines)
  obtain p q where line: "line = (p, q)" by (cases line)
  let ?f = "\<lambda>x. x\<lparr>product_stock := product_stock x + - q, product_updated_at := now tx\<rparr>"
  let ?tx1 = "tx\<lparr>products := gorm_Update (\<lambda>x. product_id x = product_id p) ?f (products tx)\<rparr>"
  from Cons.prems(1) line have rest: "decrement_stock faults db lines ?tx1 = Inr tx'"
    by (auto simp: UpdateStock_def split: prod.splits option.splits)
  have dist: "distinct (map (\<lambda>(p, q). product_id p) lines)"
    using Cons.prems(2) by simp
  have fresh: "\<forall>(p', q') \<in> set lines. product_id p' \<noteq> product_id p"
    using Cons.prems(2) line by (auto simp: image_iff)
  have rows1: "set (products ?tx1) =
                 (\<lambda>x. if product_id x = product_id p then ?f x else x) ` set (products tx)"
    by (simp add: gorm_Update_def)
  have cover: "\<forall>(p', q') \<in> set lines. \<forall>x \<in> set (products ?tx1).
                 product_id x = product_id p' \<longrightarrow> q' \<le> product_stock x"
  proof (intro ballI, clarify)
    fix p' q' x
    assume l: "(p', q') \<in> set lines" and x: "x \<in> set (products ?tx1)"
      and same: "product_id x = product_id p'"
    from x rows1 obtain y where y: "y \<in> set (products tx)"
      and xy: "x = (if product_id y = product_id p then ?f y else y)" by auto
    have ne: "product_id p' \<noteq> product_id p" using fresh l by auto
    have "product_id y = product_id x" using xy by (simp split: if_splits)
    then have "product_id y \<noteq> product_id p" using same ne by simp
    then have "x = y" using xy by simp
    moreover have "q' \<le> product_stock y"
      using Cons.prems(3) l y same \<open>x = y\<close> by auto
    ultimately show "q' \<le> product_stock x" by simp
  qed
  have nonneg: "\<forall>x \<in> set (products ?tx1). 0 \<le> product_stock x"
  proof
    fix x assume x: "x \<in> set (products ?tx1)"
    from x rows1 obtain y where y: "y \<in> set (products tx)"
      and xy: "x = (if product_id y = product_id p then ?f y else y)" by auto
    show "0 \<le> product_stock x"
    proof (cases "product_id y = product_id p")
      case True
      then have "q \<le> product_stock y" using Cons.prems(3) line y by auto
      then show ?thesis using xy True by simp
    next
      case False
      then show ?thesis using xy y Cons.prems(4) by simp
    qed
  qed
  show ?case
    by (rule Cons.IH [OF rest dist cover nonneg])
qed

lemma user_rows_distinct_products:
  "distinct (map cart_key rows) \<Longrightarrow>
   distinct (map cart_product_id (filter (\<lambda>r. cart_user_id r = u) rows))"
proof (induction rows)
  case Nil
  then show ?case by simp
next
  case (Cons r rows)
  have "cart_user_id r = u \<Longrightarrow> cart_product_id r \<notin> cart_product_id ` {x \<in> set rows. cart_user_id x = u}"
  proof
    assume u: "cart_user_id r = u"
      and "cart_product_id r \<in> cart_product_id ` {x \<in> set rows. cart_user_id x = u}"
    then obtain x where "x \<in> set rows" "cart_user_id x = u" "cart_product_id x = cart_product_id r"
      by auto
    then have "cart_key x = cart_key r" "x \<in> set rows" using u by (simp_all add: cart_key_def)
    then have "cart_key r \<in> cart_key ` set rows" by (metis imageI)
    then show False using Cons.prems by simp
  qed
  then show ?case using Cons by auto
qed

lemma purchase_lines_nonneg:
  assumes ok: "purchase_lines faults db userID requested clear_cart tx = Inr tx'"
    and ids: "distinct (map product_id (products tx))"
    and req: "distinct (map fst requested)"
    and nonneg: "\<forall>x \<in> set (products tx). 0 \<le> product_stock x"
  shows "\<forall>x \<in> set (products tx'). 0 \<le> product_stock x"
proof -
  from purchase_lines_steps [OF ok] obtain lines wallet tx1 tx2 tx3 where
    lines: "read_lines tx requested = Inr lines"
    and wallet: "find (\<lambda>w. wallet_user_id w = userID) (wallets tx) = Some wallet"
    and bal: "total_cost lines \<le> wallet_balance wallet"
    and debit: "DebitWallet tx None (wallet_id wallet) (total_cost lines) = (None, tx1)"
    and dec: "decrement_stock faults db lines tx1 = Inr tx2"
    and led: "write_ledger faults db (wallet_id wallet) lines tx2 = Inr tx3"
    and final: "tx' = (if clear_cart
                   then tx3\<lparr>cart_items := gorm_Delete (\<lambda>r. cart_user_id r = userID) (cart_items tx3)\<rparr>
                   else tx3)"
    by auto
  have p1: "products tx1 = products tx"
    using debit by (simp add: DebitWallet_success)
  have read: "map (\<lambda>(p, q). (product_id p, q)) lines = requested"
    and found: "\<forall>(p, q) \<in> set lines. p \<in> set (products tx) \<and> q \<le> product_stock p"
    using read_lines_Inr [OF lines] by simp_all
  have "map (\<lambda>(p, q). product_id p) lines = map fst (map (\<lambda>(p, q). (product_id p, q)) lines)"
    by (simp add: case_prod_unfold comp_def)
  then have dist: "distinct (map (\<lambda>(p, q). product_id p) lines)"
    using req read by simp
  have cover: "\<forall>(p, q) \<in> set lines. \<forall>x \<in> set (products tx1).
                 product_id x = product_id p \<longrightarrow> q \<le> product_stock x"
  proof (intro ballI, clarify)
    fix p q x
    assume l: "(p, q) \<in> set lines" and x: "x \<in> set (products tx1)" and same: "product_id x = product_id p"
    have p: "p \<in> set (products tx)" and q: "q \<le> product_stock p" using found l by auto
    have "x = p" using ids x p same p1 by (auto intro: distinct_map_eq)
    then show "q \<le> product_stock x" using q by simp
  qed
  have "\<forall>x \<in> set (products tx2). 0 \<le> product_stock x"
    using dec dist cover nonneg unfolding p1 [symmetric] by (rule decrement_stock_nonneg)
  moreover have "products tx3 = products tx2"
    using write_ledger_frame [OF led] by simp
  moreover have "products tx' = products tx3"
    using final by simp
  ultimately show ?thesis by simp
qed

lemma purchase_insufficient_stock:
  assumes "FindByID db (purchase_product_id req) = Inr product"
    and "product_stock product < purchase_quantity req"
  shows "Service_PurchaseProduct faults userID req db = (Some (ErrNew ''insufficient stock''), db)"
  using assms by (simp add: Service_PurchaseProduct_def Transaction_def purchase_lines_def)

lemma purchase_succeeds:
  assumes product: "FindByID db (purchase_product_id req) = Inr product"
    and stock: "purchase_quantity req \<le> product_stock product"
    and wallet: "find (\<lambda>w. wallet_user_id w = userID) (wallets db) = Some wallet"
    and bal: "product_price product * purchase_quantity req \<le> wallet_balance wallet"
    and debit: "faults DebitStatement = None"
    and upd: "faults (StockStatement (purchase_product_id req)) = None"
    and led: "faults (LedgerStatement (purchase_product_id req)) = None"
    and commit: "faults CommitStatement = None"
  shows "\<exists>db'. Service_PurchaseProduct faults userID req db = (None, db')"
proof -
  have pid: "product_id product = purchase_product_id req"
    using FindByID_Inr [OF product] by simp
  have fresh: "auto_increment (map mt_id (marketplace_transactions db))
                 \<notin> mt_id ` set (marketplace_transactions db)"
    using auto_increment_bound [of "auto_increment (map mt_id (marketplace_transactions db))"
            "map mt_id (marketplace_transactions db)"] by auto
  show ?thesis
    using product stock wallet bal debit upd led commit fresh
    by (simp add: Service_PurchaseProduct_def Transaction_def purchase_lines_def total_cost_def
          DebitWallet_def UpdateStock_def CreateTransaction_def pid Let_def)
qed

text \<open>
  Claim C2, as amended. In a store with unique product ids, for a purchase of quantity
  \<open>q\<close> of a product with stock \<open>s\<close>: when \<open>q\<close> is at most \<open>s\<close>, the buyer's wallet covers
  price times \<open>q\<close> and the storage engine refuses none of the purchase's statements, the
  purchase succeeds and the resulting stock of the product is \<open>s - q\<close>, the stock of every
  other product being as before; a purchase succeeds only with \<open>q\<close> at most \<open>s\<close>, and then
  with that resulting stock; a purchase that fails, for whatever reason, leaves the
  database as before; and when \<open>q\<close> exceeds \<open>s\<close> the purchase fails with "insufficient stock".
  Consequently, when no stock is negative before, none is negative after a purchase, and
  none after a checkout of a cart that holds one row per user and product.
\<close>

theorem purchase_stock:
  assumes ids: "distinct (map product_id (products db))"
  shows
  "(\<forall>product wallet.
        FindByID db (purchase_product_id req) = Inr product
      \<and> purchase_quantity req \<le> product_stock product
      \<and> find (\<lambda>w. wallet_user_id w = userID) (wallets db) = Some wallet
      \<and> product_price product * purchase_quantity req \<le> wallet_balance wallet
      \<and> faults DebitStatement = None
      \<and> faults (StockStatement (purchase_product_id req)) = None
      \<and> faults (LedgerStatement (purchase_product_id req)) = None
      \<and> faults CommitStatement = None
      \<longrightarrow>
        (\<exists>db'. Service_PurchaseProduct faults userID req db = (None, db')
           \<and> map product_stock (products db')
               = map (\<lambda>x. if x = product then product_stock product - purchase_quantity req
                           else product_stock x) (products db)))
   \<and> (\<forall>db'. Service_PurchaseProduct faults userID req db = (None, db') \<longrightarrow>
      (\<exists>product. FindByID db (purchase_product_id req) = Inr product
         \<and> purchase_quantity req \<le> product_stock product
         \<and> map product_stock (products db')
             = map (\<lambda>x. if x = product then product_stock product - purchase_quantity req
                         else product_stock x) (products db)))
   \<and> (\<forall>err db'. Service_PurchaseProduct faults userID req db = (Some err, db') \<longrightarrow> db' = db)
   \<and> (\<forall>product. FindByID db (purchase_product_id req) = Inr product
                  \<and> product_stock product < purchase_quantity req \<longrightarrow>
        Service_PurchaseProduct faults userID req db = (Some (ErrNew ''insufficient stock''), db))
   \<and> ((\<forall>x \<in> set (products db). 0 \<le> product_stock x) \<longrightarrow>
        (\<forall>x \<in> set (products (snd (Service_PurchaseProduct faults userID req db))). 0 \<le> product_stock x)
      \<and> (cart_wf (cart_items db) \<longrightarrow>
           (\<forall>x \<in> set (products (snd (Service_Checkout faults userID creq db))). 0 \<le> product_stock x)))"
proof -
  have success: "\<exists>product. FindByID db (purchase_product_id req) = Inr product
         \<and> purchase_quantity req \<le> product_stock product
         \<and> map product_stock (products db')
             = map (\<lambda>x. if x = product then product_stock product - purchase_quantity req
                         else product_stock x) (products db)"
    if ok: "Service_PurchaseProduct faults userID req db = (None, db')" for db'
  proof -
    from purchase_success_state [OF ok] obtain product wallet where
      product: "FindByID db (purchase_product_id req) = Inr product"
      and stock: "purchase_quantity req \<le> product_stock product"
      and rows: "products db' =
                   gorm_Update (\<lambda>p. product_id p = purchase_product_id req)
                     (\<lambda>p. p\<lparr>product_stock := product_stock p - purchase_quantity req,
                             product_updated_at := now db\<rparr>)
                     (products db)"
      by auto
    have p: "product \<in> set (products db)" "product_id product = purchase_product_id req"
      using FindByID_Inr [OF product] by simp_all
    have "map product_stock (products db')
            = map (\<lambda>x. if x = product then product_stock product - purchase_quantity req
                        else product_stock x) (products db)"
      unfolding rows gorm_Update_def map_map
    proof (rule map_cong [OF refl])
      fix x assume x: "x \<in> set (products db)"
      have "product_id x = purchase_product_id req \<longleftrightarrow> x = product"
        using ids x p by (auto intro: distinct_map_eq)
      then show "(product_stock \<circ> (\<lambda>r. if product_id r = purchase_product_id req
                     then r\<lparr>product_stock := product_stock r - purchase_quantity req,
                             product_updated_at := now db\<rparr> else r)) x
               = (if x = product then product_stock product - purchase_quantity req else product_stock x)"
        by auto
    qed
    then show ?thesis
      using product stock by blast
  qed
  show ?thesis
  proof (intro conjI allI impI)
    fix product wallet
    assume a: "FindByID db (purchase_product_id req) = Inr product
      \<and> purchase_quantity req \<le> product_stock product
      \<and> find (\<lambda>w. wallet_user_id w = userID) (wallets db) = Some wallet
      \<and> product_price product * purchase_quantity req \<le> wallet_balance wallet
      \<and> faults DebitStatement = None
      \<and> faults (StockStatement (purchase_product_id req)) = None
      \<and> faults (LedgerStatement (purchase_product_id req)) = None
      \<and> faults CommitStatement = None"
    then obtain db' where ok: "Service_PurchaseProduct faults userID req db = (None, db')"
      using purchase_succeeds [of db req product userID wallet faults] by blast
    from success [OF ok] obtain product' where
      p': "FindByID db (purchase_product_id req) = Inr product'"
      and m: "map product_stock (products db')
               = map (\<lambda>x. if x = product' then product_stock product' - purchase_quantity req
                           else product_stock x) (products db)"
      by blast
    have "product' = product" using p' a by simp
    then show "\<exists>db'. Service_PurchaseProduct faults userID req db = (None, db')
           \<and> map product_stock (products db')
               = map (\<lambda>x. if x = product then product_stock product - purchase_quantity req
                           else product_stock x) (products db)"
      using ok m by blast
  next
    fix db'
    assume "Service_PurchaseProduct faults userID req db = (None, db')"
    then show "\<exists>product. FindByID db (purchase_product_id req) = Inr product
         \<and> purchase_quantity req \<le> product_stock product
         \<and> map product_stock (products db')
             = map (\<lambda>x. if x = product then product_stock product - purchase_quantity req
                         else product_stock x) (products db)"
      by (rule success)
  next
    fix err db'
    assume "Service_PurchaseProduct faults userID req db = (Some err, db')"
    then show "db' = db"
      unfolding Service_PurchaseProduct_def by (rule Transaction_failure)
  next
    fix product
    assume "FindByID db (purchase_product_id req) = Inr product
              \<and> product_stock product < purchase_quantity req"
    then show "Service_PurchaseProduct faults userID req db = (Some (ErrNew ''insufficient stock''), db)"
      using purchase_insufficient_stock by blast
  next
    assume nonneg: "\<forall>x \<in> set (products db). 0 \<le> product_stock x"
    show "\<forall>x \<in> set (products (snd (Service_PurchaseProduct faults userID req db))). 0 \<le> product_stock x"
    proof (cases "Service_PurchaseProduct faults userID req db")
      case (Pair e db')
      show ?thesis
      proof (cases e)
        case None
        then have body: "purchase_lines faults db userID
                           [(purchase_product_id req, purchase_quantity req)] False db = Inr db'"
          using Pair by (simp add: Service_PurchaseProduct_def Transaction_success)
        have one: "distinct (map fst [(purchase_product_id req, purchase_quantity req)])"
          by simp
        have "\<forall>x \<in> set (products db'). 0 \<le> product_stock x"
          using body ids one nonneg by (rule purchase_lines_nonneg)
        then show ?thesis using Pair by simp
      next
        case (Some err)
        then have "db' = db" using Pair Transaction_failure
          unfolding Service_PurchaseProduct_def by blast
        then show ?thesis using Pair nonneg by simp
      qed
    qed
    assume wf: "cart_wf (cart_items db)"
    let ?requested = "map (\<lambda>(item, product). (cart_product_id item, sint (cart_quantity item)))
                          (fst (GetCart db userID))"
    have "map fst ?requested = map cart_product_id (filter (\<lambda>r. cart_user_id r = userID) (cart_items db))"
      by (simp add: GetCart_def comp_def)
    then have req: "distinct (map fst ?requested)"
      using wf user_rows_distinct_products [of "cart_items db" userID] by (simp add: cart_wf_def)
    show "\<forall>x \<in> set (products (snd (Service_Checkout faults userID creq db))). 0 \<le> product_stock x"
    proof (cases "Service_Checkout faults userID creq db")
      case (Pair e db')
      show ?thesis
      proof (cases e)
        case None
        then have "purchase_lines faults db userID ?requested True db = Inr db'"
          using Pair by (simp add: Service_Checkout_def Transaction_success)
        then have "\<forall>x \<in> set (products db'). 0 \<le> product_stock x"
          using ids req nonneg by (rule purchase_lines_nonneg)
        then show ?thesis using Pair by simp
      next
        case (Some err)
        then have "db' = db" using Pair Transaction_failure
          unfolding Service_Checkout_def by blast
        then show ?thesis using Pair nonneg by simp
      qed
    qed
  qed
qed

text \<open>
  Claim C2 as stated fails in three ways. A quantity within stock that the wallet cannot
  pay: with stock 5, price 30 and balance 100 a purchase of 4 fails and the stock stays 5;
  it does not become 1. A quantity within stock and balance whose stock update the storage
  engine refuses: the purchase of 2 fails and the stock stays 5. And an operation that
  makes a stock negative: the repository's \<open>UpdateStock\<close> with delta -10 on stock 5 leaves
  stock -5.
\<close>

theorem purchase_within_stock_can_fail:
  "Service_PurchaseProduct (\<lambda>s. None) 7 \<lparr>purchase_product_id = 1, purchase_quantity = 4\<rparr>
     \<lparr>products =
        [\<lparr>product_id = 1, product_name = ''pen'', product_description = [], product_price = 30,
          product_stock = 5, product_status = ''active'', product_created_at = 10, product_updated_at = 10\<rparr>],
      cart_items = [], marketplace_transactions = [],
      wallets = [\<lparr>wallet_id = 3, wallet_user_id = 7, wallet_balance = 100\<rparr>],
      users = [], now = 40\<rparr>
   = (Some (ErrNew ''insufficient balance''),
      \<lparr>products =
        [\<lparr>product_id = 1, product_name = ''pen'', product_description = [], product_price = 30,
          product_stock = 5, product_status = ''active'', product_created_at = 10, product_updated_at = 10\<rparr>],
      cart_items = [], marketplace_transactions = [],
      wallets = [\<lparr>wallet_id = 3, wallet_user_id = 7, wallet_balance = 100\<rparr>],
      users = [], now = 40\<rparr>)
   \<and> Service_PurchaseProduct
       (\<lambda>s. if s = StockStatement 1 then Some (ErrStorage ''lock wait timeout'') else None) 7
       \<lparr>purchase_product_id = 1, purchase_quantity = 2\<rparr>
     \<lparr>products =
        [\<lparr>product_id = 1, product_name = ''pen'', product_description = [], product_price = 30,
          product_stock = 5, product_status = ''active'', product_created_at = 10, product_updated_at = 10\<rparr>],
      cart_items = [], marketplace_transactions = [],
      wallets = [\<lparr>wallet_id = 3, wallet_user_id = 7, wallet_balance = 100\<rparr>],
      users = [], now = 40\<rparr>
   = (Some (ErrStorage ''lock wait timeout''),
      \<lparr>products =
        [\<lparr>product_id = 1, product_name = ''pen'', product_description = [], product_price = 30,
          product_stock = 5, product_status = ''active'', product_created_at = 10, product_updated_at = 10\<rparr>],
      cart_items = [], marketplace_transactions = [],
      wallets = [\<lparr>wallet_id = 3, wallet_user_id = 7, wallet_balance = 100\<rparr>],
      users = [], now = 40\<rparr>)
   \<and> UpdateStock
     \<lparr>products =
        [\<lparr>product_id = 1, product_name = ''pen'', product_description = [], product_price = 30,
          product_stock = 5, product_status = ''active'', product_created_at = 10, product_updated_at = 10\<rparr>],
      cart_items = [], marketplace_transactions = [],
      wallets = [\<lparr>wallet_id = 3, wallet_user_id = 7, wallet_balance = 100\<rparr>],
      users = [], now = 40\<rparr>
     None None 1 (- 10)
   = (None,
      \<lparr>products =
        [\<lparr>product_id = 1, product_name = ''pen'', product_description = [], product_price = 30,
          product_stock = - 5, product_status = ''active'', product_created_at = 10, product_updated_at = 40\<rparr>],
      cart_items = [], marketplace_transactions = [],
      wallets = [\<lparr>wallet_id = 3, wallet_user_id = 7, wallet_balance = 100\<rparr>],
      users = [], now = 40\<rparr>)"
  by (simp add: Service_PurchaseProduct_def Transaction_def purchase_lines_def FindByID_def
        gorm_First_def total_cost_def DebitWallet_def UpdateStock_def gorm_Update_def Let_def)

theorem purchase_stock_witness:
  "distinct (map product_id
     [\<lparr>product_id = 1, product_name = ''pen'', product_description = [], product_price = 30,
       product_stock = 5, product_status = ''active'', product_created_at = 10, product_updated_at = 10\<rparr>])
   \<and> Service_PurchaseProduct (\<lambda>s. None) 7 \<lparr>purchase_product_id = 1, purchase_quantity = 2\<rparr>
     \<lparr>products =
        [\<lparr>product_id = 1, product_name = ''pen'', product_description = [], product_price = 30,
          product_stock = 5, product_status = ''active'', product_created_at = 10, product_updated_at = 10\<rparr>],
      cart_items = [], marketplace_transactions = [],
      wallets = [\<lparr>wallet_id = 3, wallet_user_id = 7, wallet_balance = 100\<rparr>],
      users = [], now = 40\<rparr>
   = (None,
      \<lparr>products =
        [\<lparr>product_id = 1, product_name = ''pen'', product_description = [], product_price = 30,
          product_stock = 3, product_status = ''active'', product_created_at = 10, product_updated_at = 40\<rparr>],
      cart_items = [],
      marketplace_transactions =
        [\<lparr>mt_id = 1, mt_wallet_id = 3, mt_product_id = 1, mt_quantity = 2, mt_amount = 60,
          mt_created_at = 40\<rparr>],
      wallets = [\<lparr>wallet_id = 3, wallet_user_id = 7, wallet_balance = 40\<rparr>],
      users = [], now = 40\<rparr>)"
  using purchase_stock
    [where db = "\<lparr>products =
        [\<lparr>product_id = 1, product_name = ''pen'', product_description = [], product_price = 30,
          product_stock = 5, product_status = ''active'', product_created_at = 10, product_updated_at = 10\<rparr>],
      cart_items = [], marketplace_transactions = [],
      wallets = [\<lparr>wallet_id = 3, wallet_user_id = 7, wallet_balance = 100\<rparr>],
      users = [], now = 40\<rparr>"
       and faults = "\<lambda>s. None" and userID = 7
       and req = "\<lparr>purchase_product_id = 1, purchase_quantity = 2\<rparr>" and creq = "()"]
  by (simp add: Service_PurchaseProduct_def Transaction_def purchase_lines_def FindByID_def
        gorm_First_def total_cost_def DebitWallet_def UpdateStock_def CreateTransaction_def
        gorm_Update_def auto_increment_def Let_def)

end
